theory Spec2Isabelle
  imports
    Main
    "HOL-Library.Sublist"
    "HOL-Library.AList"
    "HOL-Library.Char_ord"
    "HOL-Library.List_Lexorder"
begin

section \<open>The "sp" server command of Source.Python (core/command.py)\<close>

text \<open>
  A shallow embedding of \<^verbatim>\<open>_CoreCommandManager\<close>. Python strings are \<open>string\<close>; a
  \<open>char\<close> stands for a code point below 256. Methods whose Python name starts with
  an underscore lose it (\<^verbatim>\<open>_create_plugin_docs\<close> is \<open>create_plugin_docs\<close>).
  Everything imported from another module (paths, autodoc, dumps, configobj, the
  translation strings, the version) is a field of the record \<open>env\<close>.
\<close>

subsection \<open>Python strings\<close>

abbreviation DQ :: string where "DQ \<equiv> [CHR 0x22]"
abbreviation SQ :: string where "SQ \<equiv> [CHR 0x27]"
abbreviation TAB :: string where "TAB \<equiv> [CHR 0x09]"
abbreviation NL :: string where "NL \<equiv> [CHR 0x0A]"
abbreviation CR :: string where "CR \<equiv> [CHR 0x0D]"

text \<open>\<^verbatim>\<open>s * n\<close>: a count below one gives the empty string.\<close>

definition str_mul :: "string \<Rightarrow> int \<Rightarrow> string" where
  "str_mul s n = concat (replicate (nat n) s)"

text \<open>\<^verbatim>\<open>sep.join(xs)\<close>.\<close>

fun join :: "string \<Rightarrow> string list \<Rightarrow> string" where
  "join sep [] = []"
| "join sep [x] = x"
| "join sep (x # y # ys) = x @ sep @ join sep (y # ys)"

text \<open>\<^verbatim>\<open>s.startswith(p)\<close>.\<close>

definition startswith :: "string \<Rightarrow> string \<Rightarrow> bool" where
  "startswith s p = prefix p s"

text \<open>
  \<^verbatim>\<open>s.replace(old, new)\<close>: the occurrences of \<open>old\<close> are found from left to right
  and do not overlap; what follows a replaced occurrence is scanned on. With an empty
  \<open>old\<close> Python puts \<open>new\<close> before every character and at the end.
\<close>

function replace_scan :: "string \<Rightarrow> string \<Rightarrow> string \<Rightarrow> string" where
  "replace_scan old new [] = []"
| "replace_scan old new (c # cs) =
     (if old \<noteq> [] \<and> prefix old (c # cs)
      then new @ replace_scan old new (drop (length old) (c # cs))
      else c # replace_scan old new cs)"
  by pat_completeness auto
termination
  by (relation "measure (\<lambda>(old, new, s). length s)") auto

definition replace :: "string \<Rightarrow> string \<Rightarrow> string \<Rightarrow> string" where
  "replace s old new =
     (if old = [] then new @ concat (map (\<lambda>c. c # new) s) else replace_scan old new s)"

text \<open>
  \<^verbatim>\<open>str.isspace\<close> on one character, for the code points below 256: tab to carriage
  return, the four separators 0x1C to 0x1F, the space, NEL and the no-break space.
\<close>

definition isspace :: "char \<Rightarrow> bool" where
  "isspace c = (of_char c \<in> {9, 10, 11, 12, 13, 28, 29, 30, 31, 32, 133, 160 :: nat})"

subsection \<open>Errors and results\<close>

datatype error = ValueError | IndexError | KeyError | OSError | ConfigObjError | DumpError

subsection \<open>The file system\<close>

text \<open>
  A path is the list of its components; \<^verbatim>\<open>p / name\<close> and \<^verbatim>\<open>p.joinpath(name)\<close>
  add one. The disk maps paths to nodes, in the order a directory listing shows them.
  A file holds its bytes, and a byte is taken as one character (ASCII, or any encoding
  of one byte per character).
\<close>

type_synonym path = "string list"

definition joinpath :: "path \<Rightarrow> string \<Rightarrow> path" where
  "joinpath p name = p @ [name]"

datatype node = File string | Dir

type_synonym disk = "(path \<times> node) list"

definition isdir :: "path \<Rightarrow> disk \<Rightarrow> bool" where
  "isdir p d = (map_of d p = Some Dir)"

definition isfile :: "path \<Rightarrow> disk \<Rightarrow> bool" where
  "isfile p d = (case map_of d p of Some (File s) \<Rightarrow> True | _ \<Rightarrow> False)"

text \<open>\<^verbatim>\<open>p.listdir()\<close>: the entries directly below \<open>p\<close>; it raises when \<open>p\<close> is no directory.\<close>

definition listdir :: "path \<Rightarrow> disk \<Rightarrow> error + path list" where
  "listdir p d =
     (if isdir p d then Inr (remdups (filter (\<lambda>q. q \<noteq> [] \<and> butlast q = p) (map fst d)))
      else Inl OSError)"

text \<open>\<^verbatim>\<open>p.dirs()\<close>: the subdirectories among the entries.\<close>

definition dirs :: "path \<Rightarrow> disk \<Rightarrow> error + path list" where
  "dirs p d =
     (case listdir p d of Inl e \<Rightarrow> Inl e | Inr qs \<Rightarrow> Inr (filter (\<lambda>q. isdir q d) qs))"

text \<open>
  \<^verbatim>\<open>fnmatch.fnmatch(name, pattern)\<close> for patterns of literal characters, \<open>*\<close> and \<open>?\<close>
  (character classes are not modelled), with the case-sensitive comparison of POSIX.
\<close>

fun fnmatch_pat :: "string \<Rightarrow> string \<Rightarrow> bool" where
  "fnmatch_pat [] s = (s = [])"
| "fnmatch_pat (p # ps) [] = (p = CHR ''*'' \<and> fnmatch_pat ps [])"
| "fnmatch_pat (p # ps) (c # cs) =
     (if p = CHR ''*'' then fnmatch_pat ps (c # cs) \<or> fnmatch_pat (p # ps) cs
      else (p = CHR ''?'' \<or> p = c) \<and> fnmatch_pat ps cs)"

definition fnmatch :: "string \<Rightarrow> string \<Rightarrow> bool" where
  "fnmatch name pattern = fnmatch_pat pattern name"

text \<open>\<^verbatim>\<open>p.files(pattern)\<close>: the files among the entries whose name matches.\<close>

definition files :: "path \<Rightarrow> string \<Rightarrow> disk \<Rightarrow> error + path list" where
  "files p pattern d =
     (case listdir p d of
        Inl e \<Rightarrow> Inl e
      | Inr qs \<Rightarrow> Inr (filter (\<lambda>q. isfile q d \<and> fnmatch (last q) pattern) qs))"

text \<open>
  \<^verbatim>\<open>p.namebase\<close>: the last component without its extension. As \<^verbatim>\<open>os.path.splitext\<close>
  does, the extension starts at the last dot, unless only dots stand before it.
\<close>

definition splitext_root :: "string \<Rightarrow> string" where
  "splitext_root name =
     (if CHR ''.'' \<notin> set name then name
      else let root = rev (tl (dropWhile (\<lambda>c. c \<noteq> CHR ''.'') (rev name)))
           in if list_ex (\<lambda>c. c \<noteq> CHR ''.'') root then root else name)"

definition namebase :: "path \<Rightarrow> string" where
  "namebase p = (if p = [] then [] else splitext_root (last p))"

text \<open>
  Text mode, as \<^verbatim>\<open>open\<close> gives it without a \<^verbatim>\<open>newline\<close> argument. Reading turns
  every line ending, be it carriage return and newline, a carriage return alone or a
  newline, into a newline. Writing turns every newline into \<^verbatim>\<open>os.linesep\<close>.
\<close>

fun text_read :: "string \<Rightarrow> string" where
  "text_read [] = []"
| "text_read [c] = (if c = CHR 0x0D then NL else [c])"
| "text_read (c # d # cs) =
     (if c = CHR 0x0D
      then (if d = CHR 0x0A then CHR 0x0A # text_read cs else CHR 0x0A # text_read (d # cs))
      else c # text_read (d # cs))"

definition text_write :: "string \<Rightarrow> string \<Rightarrow> string" where
  "text_write eol s = concat (map (\<lambda>c. if c = CHR 0x0A then eol else [c]) s)"

text \<open>\<^verbatim>\<open>with p.open() as f: f.read()\<close>; it raises unless \<open>p\<close> is a file.\<close>

definition read_file :: "path \<Rightarrow> disk \<Rightarrow> error + string" where
  "read_file p d =
     (case map_of d p of Some (File bytes) \<Rightarrow> Inr (text_read bytes) | _ \<Rightarrow> Inl OSError)"

text \<open>
  \<^verbatim>\<open>with p.open('w') as f: f.write(s)\<close>: the file is created or replaced; it raises
  when \<open>p\<close> is a directory.
\<close>

definition write_file :: "string \<Rightarrow> path \<Rightarrow> string \<Rightarrow> disk \<Rightarrow> error + disk" where
  "write_file eol p s d =
     (if isdir p d then Inl OSError else Inr (AList.update p (File (text_write eol s)) d))"

text \<open>\<^verbatim>\<open>f.readlines()\<close>: the text cut after every newline, the newlines kept.\<close>

fun lines_from :: "string \<Rightarrow> string \<Rightarrow> string list" where
  "lines_from cur [] = (if cur = [] then [] else [cur])"
| "lines_from cur (c # cs) =
     (if c = CHR 0x0A then (cur @ [c]) # lines_from [] cs else lines_from (cur @ [c]) cs)"

definition readlines :: "string \<Rightarrow> string list" where
  "readlines s = lines_from [] s"

subsection \<open>The imported modules\<close>

text \<open>\<^verbatim>\<open>SphinxProject(package_dir, project_dir)\<close> of the module autodoc.\<close>

record SphinxProject =
  package_dir :: path
  project_dir :: path

text \<open>What a call of an imported function leaves: it returned or raised, and the disk.\<close>

datatype outcome = Returned disk | Raised disk

fun disk_of :: "outcome \<Rightarrow> disk" where
  "disk_of (Returned d) = d"
| "disk_of (Raised d) = d"

fun raised :: "outcome \<Rightarrow> bool" where
  "raised (Returned d) = False"
| "raised (Raised d) = True"

text \<open>
  The credits store ConfigObj reads: the groups in file order, each with its names
  and their roles in file order.
\<close>

type_synonym credits = "(string \<times> (string \<times> string) list) list"

text \<open>A value of a PluginInfo: a ConVar (name, help text, string), or what \<^verbatim>\<open>str\<close> gives.\<close>

datatype info_value = ConVar string string string | Plain string

record env =
  prefix_str :: string
  plugins_title :: string
  credits_title :: string
  VERSION :: string
  SP_DOCS_PATH :: path
  CUSTOM_PACKAGES_DOCS_PATH :: path
  PLUGIN_DOCS_PATH :: path
  SP_PACKAGES_PATH :: path
  CUSTOM_PACKAGES_PATH :: path
  PLUGIN_PATH :: path
  SP_DATA_PATH :: path
  project_exists :: "SphinxProject \<Rightarrow> disk \<Rightarrow> bool"
  project_source_dir :: "SphinxProject \<Rightarrow> path"
  project_create :: "SphinxProject \<Rightarrow> string list \<Rightarrow> disk \<Rightarrow> outcome"
  generate_project_files :: "SphinxProject \<Rightarrow> disk \<Rightarrow> outcome"
  project_build :: "SphinxProject \<Rightarrow> disk \<Rightarrow> outcome"
  dumps_all :: "string list"
  dumps_call :: "string \<Rightarrow> string \<Rightarrow> disk \<Rightarrow> outcome"
  float_ok :: "string \<Rightarrow> bool"
  linesep :: string
  ConfigObj :: "path \<Rightarrow> disk \<Rightarrow> error + credits"

text \<open>
  \<open>prefix_str\<close> is \<^verbatim>\<open>self.prefix\<close>; the titles are
  \<^verbatim>\<open>_plugin_strings['Plugins'].get_string()\<close> and the one for \<^verbatim>\<open>'Credits'\<close>;
  \<open>project_create p args\<close> is \<^verbatim>\<open>p.create(*args)\<close> and \<open>project_build p\<close> is
  \<^verbatim>\<open>p.build()\<close>; \<open>dumps_all\<close> is \<^verbatim>\<open>dumps.__all__\<close> and \<open>dumps_call name filename\<close>
  is \<^verbatim>\<open>getattr(dumps, name)(filename)\<close>; \<open>float_ok s\<close> says that \<^verbatim>\<open>float(s)\<close> returns
  (the number itself is not modelled); \<open>linesep\<close> is \<^verbatim>\<open>os.linesep\<close>.
\<close>

subsection \<open>The state\<close>

text \<open>A call of the project capability or of a dump function.\<close>

datatype call =
  Create SphinxProject "string list"
| Generate SphinxProject
| Build SphinxProject
| Dump string string

text \<open>
  \<open>log\<close> holds the messages given to \<^verbatim>\<open>self.logger.log_message\<close>, oldest first;
  \<open>calls\<close> records every call made to the project capability and the dump functions,
  with whether it raised; \<open>delays\<close> records what was given to \<^verbatim>\<open>tick_delays.delay\<close>:
  the delay token and the server command; \<open>manager\<close> is \<^verbatim>\<open>core_plugin_manager\<close>, the
  loaded plugins in the order they were loaded, each with its \<^verbatim>\<open>info\<close> (or None).
\<close>

type_synonym plugin_info = "(string \<times> info_value) list"

record world =
  disk :: disk
  manager :: "(string \<times> plugin_info option) list"
  logged :: "string list"
  calls :: "(call \<times> bool) list"
  delays :: "(string \<times> string) list"

text \<open>A handler returns the new state, or raises: the exception and the state it left.\<close>

type_synonym result = "(error \<times> world) + world"

definition log_message :: "string \<Rightarrow> world \<Rightarrow> world" where
  "log_message m w = w\<lparr>logged := logged w @ [m]\<rparr>"

text \<open>The state after a call \<open>c\<close> of an imported function that left \<open>r\<close>.\<close>

definition called :: "call \<Rightarrow> outcome \<Rightarrow> world \<Rightarrow> world" where
  "called c r w = w\<lparr>disk := disk_of r, calls := calls w @ [(c, raised r)]\<rparr>"

subsection \<open>print_credits\<close>

fun credits_names :: "(string \<times> string) list \<Rightarrow> string \<Rightarrow> string" where
  "credits_names [] message = message"
| "credits_names ((name, role) # rest) message =
     credits_names rest
       (message @ TAB @ TAB @ name @ str_mul '' '' (20 - int (length name)) @ role @ NL)"

fun credits_groups :: "credits \<Rightarrow> string \<Rightarrow> string" where
  "credits_groups [] message = message"
| "credits_groups ((grp, names) # rest) message =
     credits_groups rest (credits_names names (message @ TAB @ grp @ '':'' @ NL) @ NL)"

definition print_credits :: "env \<Rightarrow> world \<Rightarrow> result" where
  "print_credits E w =
     (let message = prefix_str E @ credits_title E @ NL @ str_mul ''='' 61 @ NL @ NL in
      case ConfigObj E (joinpath (SP_DATA_PATH E) ''credits.ini'') (disk w) of
        Inl e \<Rightarrow> Inl (e, w)
      | Inr groups \<Rightarrow>
          Inr (log_message (credits_groups groups message @ str_mul ''='' 61 @ NL @ NL) w))"

subsection \<open>print_plugins\<close>

text \<open>Iterating a dictionary gives each key once.\<close>

definition dict_keys :: "('k \<times> 'v) list \<Rightarrow> 'k list" where
  "dict_keys m = remdups (map fst m)"

fun value_str :: "info_value \<Rightarrow> string" where
  "value_str (ConVar name help_text str) = name @ '':'' @ NL @ TAB @ TAB @ TAB @ help_text @ '': '' @ str"
| "value_str (Plain s) = s"

fun info_items :: "plugin_info \<Rightarrow> string \<Rightarrow> string" where
  "info_items [] message = message"
| "info_items ((item, val) # rest) message =
     info_items rest (message @ TAB @ item @ '':'' @ NL @ TAB @ TAB @ value_str val @ NL)"

fun plugins_loop ::
  "(string \<times> plugin_info option) list \<Rightarrow> string list \<Rightarrow> string \<Rightarrow> error + string" where
  "plugins_loop m [] message = Inr message"
| "plugins_loop m (plugin_name # rest) message =
     (case map_of m plugin_name of
        None \<Rightarrow> Inl KeyError
      | Some info \<Rightarrow>
          (case info of
             Some items \<Rightarrow>
               plugins_loop m rest (info_items items (message @ plugin_name @ '':'' @ NL) @ NL)
           | None \<Rightarrow> plugins_loop m rest (message @ plugin_name @ NL @ NL)))"

definition print_plugins :: "env \<Rightarrow> world \<Rightarrow> result" where
  "print_plugins E w =
     (let message = prefix_str E @ plugins_title E @ NL @ str_mul ''='' 61 @ NL @ NL in
      case plugins_loop (manager w) (sort (dict_keys (manager w))) message of
        Inl e \<Rightarrow> Inl (e, w)
      | Inr message \<Rightarrow> Inr (log_message (message @ str_mul ''='' 61) w))"

subsection \<open>delay_execution, dump_data, print_version\<close>

definition delay_execution :: "env \<Rightarrow> string list \<Rightarrow> world \<Rightarrow> result" where
  "delay_execution E args w =
     (case args of
        [] \<Rightarrow> Inl (IndexError, w)
      | a # rest \<Rightarrow>
          if \<not> float_ok E a then Inl (ValueError, w)
          else Inr (w\<lparr>delays := delays w @ [(a, join '' '' rest @ NL)]\<rparr>))"

fun dump_names :: "string list \<Rightarrow> world \<Rightarrow> world" where
  "dump_names [] w = w"
| "dump_names (dump # rest) w = dump_names rest (log_message (TAB @ replace dump ''dump_'' []) w)"

definition dump_data :: "env \<Rightarrow> string \<Rightarrow> string \<Rightarrow> world \<Rightarrow> result" where
  "dump_data E dump_type filename w =
     (if ''dump_'' @ dump_type \<notin> set (dumps_all E)
      then Inr (dump_names (dumps_all E)
             (log_message (''Invalid dump_type '' @ DQ @ dump_type @ DQ @ ''. The valid types are:'') w))
      else let r = dumps_call E (''dump_'' @ dump_type) filename (disk w);
               w' = called (Dump (''dump_'' @ dump_type) filename) r w
           in if raised r then Inl (DumpError, w') else Inr w')"

definition print_version :: "env \<Rightarrow> world \<Rightarrow> result" where
  "print_version E w = Inr (log_message (''Current Source.Python version: '' @ VERSION E) w)"

subsection \<open>The Sphinx projects\<close>

definition source_python_project :: "env \<Rightarrow> SphinxProject" where
  "source_python_project E = \<lparr>package_dir = SP_PACKAGES_PATH E, project_dir = SP_DOCS_PATH E\<rparr>"

definition custom_package_project :: "env \<Rightarrow> string \<Rightarrow> SphinxProject" where
  "custom_package_project E package =
     \<lparr>package_dir = joinpath (CUSTOM_PACKAGES_PATH E) package,
      project_dir = joinpath (CUSTOM_PACKAGES_DOCS_PATH E) package\<rparr>"

definition plugin_project :: "env \<Rightarrow> string \<Rightarrow> SphinxProject" where
  "plugin_project E package =
     \<lparr>package_dir = joinpath (PLUGIN_PATH E) package,
      project_dir = joinpath (PLUGIN_DOCS_PATH E) package\<rparr>"

text \<open>
  \<^verbatim>\<open>try: call  except: log(failure)  else: log(success)\<close>, the shape of every routine
  but two: the bare \<^verbatim>\<open>except\<close> catches whatever the call raises.
\<close>

definition try_call :: "call \<Rightarrow> outcome \<Rightarrow> string \<Rightarrow> string \<Rightarrow> world \<Rightarrow> result" where
  "try_call c r failure success w =
     (if raised r then Inr (log_message failure (called c r w))
      else Inr (log_message success (called c r w)))"

subsection \<open>create\<close>

definition create_source_python_docs :: "env \<Rightarrow> world \<Rightarrow> result" where
  "create_source_python_docs E w =
     (let project = source_python_project E;
          args = [''Source.Python Development Team'', ''Source.Python'', VERSION E] in
      if project_exists E project (disk w)
      then Inr (log_message ''Sphinx project already exists for Source.Python'' w)
      else try_call (Create project args) (project_create E project args (disk w))
             ''An occured while creating Sphinx project for Source.Python.''
             ''Sphinx project has been created for Source.Python.'' w)"

definition create_custom_package_docs :: "env \<Rightarrow> string \<Rightarrow> world \<Rightarrow> result" where
  "create_custom_package_docs E package w =
     (let project = custom_package_project E package in
      if project_exists E project (disk w)
      then Inr (log_message
             (''Sphinx project already exists for custom package '' @ DQ @ package @ DQ @ ''.'') w)
      else try_call (Create project [''Unknown'']) (project_create E project [''Unknown''] (disk w))
             (''An error occured while creating Sphinx project for custom package '' @ DQ @ package @ DQ @ ''.'')
             (''Sphinx project has been created for custom package '' @ DQ @ package @ DQ @ ''.'') w)"

definition create_plugin_docs :: "env \<Rightarrow> string \<Rightarrow> world \<Rightarrow> result" where
  "create_plugin_docs E package w =
     (let project = plugin_project E package in
      if project_exists E project (disk w)
      then Inr (log_message
             (''Sphinx project already exists for plugin '' @ DQ @ package @ DQ @ ''.'') w)
      else try_call (Create project [''Unknown'']) (project_create E project [''Unknown''] (disk w))
             (''An error occured while creating Sphinx project for plugin '' @ DQ @ package @ DQ @ ''.'')
             (''Sphinx project has been created for plugin '' @ DQ @ package @ DQ @ ''.'') w)"

subsection \<open>generate\<close>

text \<open>The loop over the \<^verbatim>\<open>*.rst\<close> files: each is read, then written without "source-python.".\<close>

fun rewrite_rst :: "string \<Rightarrow> path list \<Rightarrow> disk \<Rightarrow> (error \<times> disk) + disk" where
  "rewrite_rst eol [] d = Inr d"
| "rewrite_rst eol (file_path # rest) d =
     (case read_file file_path d of
        Inl e \<Rightarrow> Inl (e, d)
      | Inr data \<Rightarrow>
          (case write_file eol file_path (replace data ''source-python.'' []) d of
             Inl e \<Rightarrow> Inl (e, d)
           | Inr d' \<Rightarrow> rewrite_rst eol rest d'))"

definition generate_source_python_docs :: "env \<Rightarrow> world \<Rightarrow> result" where
  "generate_source_python_docs E w =
     (let project = source_python_project E in
      if project_exists E project (disk w)
      then let r = generate_project_files E project (disk w);
               w1 = called (Generate project) r w
           in if raised r
              then Inr (log_message
                     ''An error occured while generating project files for Source.Python'' w1)
              else (case files (project_source_dir E project) ''*.rst'' (disk w1) of
                      Inl e \<Rightarrow> Inl (e, w1)
                    | Inr fs \<Rightarrow>
                        (case rewrite_rst (linesep E) fs (disk w1) of
                           Inl (e, d) \<Rightarrow> Inl (e, w1\<lparr>disk := d\<rparr>)
                         | Inr d \<Rightarrow>
                             Inr (log_message
                               ''Project files have been generated for Source.Python.''
                               (w1\<lparr>disk := d\<rparr>))))
      else Inr (log_message ''Sphinx project does not exist for Source.Python.'' w))"

definition generate_custom_package_docs :: "env \<Rightarrow> string \<Rightarrow> world \<Rightarrow> result" where
  "generate_custom_package_docs E package w =
     (let project = custom_package_project E package in
      if project_exists E project (disk w)
      then try_call (Generate project) (generate_project_files E project (disk w))
             (''An error occured while generating project files for custom package '' @ DQ @ package @ DQ @ ''.'')
             (''Project files have been generated for custom package '' @ DQ @ package @ DQ @ ''.'') w
      else Inr (log_message
             (''Sphinx project does not exist for custom package '' @ DQ @ package @ DQ @ ''.'') w))"

definition generate_plugin_docs :: "env \<Rightarrow> string \<Rightarrow> world \<Rightarrow> result" where
  "generate_plugin_docs E package w =
     (let project = plugin_project E package in
      if project_exists E project (disk w)
      then try_call (Generate project) (generate_project_files E project (disk w))
             (''An error occured while generating project files for plugin '' @ DQ @ package @ DQ @ ''.'')
             (''Project files have been generated for plugin '' @ DQ @ package @ DQ @ ''.'') w
      else Inr (log_message
             (''Sphinx project does not exist for plugin '' @ DQ @ package @ DQ @ ''.'') w))"

subsection \<open>build\<close>

text \<open>\<^verbatim>\<open>line.split(maxsplit=1)[0]\<close>: the first word; None when there is none (IndexError).\<close>

definition split_first :: "string \<Rightarrow> string option" where
  "split_first s =
     (let t = dropWhile isspace s
      in if t = [] then None else Some (takeWhile (\<lambda>c. \<not> isspace c) t))"

text \<open>
  The loop that writes conf.py back: \<open>out\<close> is what has been written so far. When a
  line raises, the file keeps what was written before it.
\<close>

fun write_conf_lines :: "string \<Rightarrow> string list \<Rightarrow> string \<Rightarrow> (error \<times> string) + string" where
  "write_conf_lines version [] out = Inr out"
| "write_conf_lines version (line # rest) out =
     (if startswith line ''version'' \<or> startswith line ''release''
      then (case split_first line of
              None \<Rightarrow> Inl (IndexError, out)
            | Some word \<Rightarrow>
                write_conf_lines version rest (out @ word @ '' = '' @ SQ @ '' '' @ version @ SQ @ NL))
      else write_conf_lines version rest (out @ line))"

definition build_source_python_docs :: "env \<Rightarrow> world \<Rightarrow> result" where
  "build_source_python_docs E w =
     (let project = source_python_project E in
      if project_exists E project (disk w)
      then let conf_file = joinpath (project_source_dir E project) ''conf.py'' in
           (case read_file conf_file (disk w) of
              Inl e \<Rightarrow> Inl (e, w)
            | Inr text \<Rightarrow>
                (case write_conf_lines (VERSION E) (readlines text) [] of
                   Inl (e, out) \<Rightarrow>
                     (case write_file (linesep E) conf_file out (disk w) of
                        Inl e' \<Rightarrow> Inl (e', w)
                      | Inr d \<Rightarrow> Inl (e, w\<lparr>disk := d\<rparr>))
                 | Inr out \<Rightarrow>
                     (case write_file (linesep E) conf_file out (disk w) of
                        Inl e' \<Rightarrow> Inl (e', w)
                      | Inr d \<Rightarrow>
                          try_call (Build project) (project_build E project d)
                            ''An error occured while building project files for Source.Python.''
                            ''Project files have been built for Source.Python.''
                            (w\<lparr>disk := d\<rparr>))))
      else Inr (log_message ''Sphinx project does not exist for Source.Python.'' w))"

definition build_custom_package_docs :: "env \<Rightarrow> string \<Rightarrow> world \<Rightarrow> result" where
  "build_custom_package_docs E package w =
     (let project = custom_package_project E package in
      if project_exists E project (disk w)
      then try_call (Build project) (project_build E project (disk w))
             (''An error occured while building project files for custom package '' @ DQ @ package @ DQ @ ''.'')
             (''Project files have been built for custom package '' @ DQ @ package @ DQ @ ''.'') w
      else Inr (log_message
             (''Sphinx project does not exist for custom package '' @ DQ @ package @ DQ @ ''.'') w))"

definition build_plugin_docs :: "env \<Rightarrow> string \<Rightarrow> world \<Rightarrow> result" where
  "build_plugin_docs E package w =
     (let project = plugin_project E package in
      if project_exists E project (disk w)
      then try_call (Build project) (project_build E project (disk w))
             (''An error occured while building project files for plugin '' @ DQ @ package @ DQ @ ''.'')
             (''Project files have been built for plugin '' @ DQ @ package @ DQ @ ''.'') w
      else Inr (log_message
             (''Sphinx project does not exist for plugin '' @ DQ @ package @ DQ @ ''.'') w))"

subsection \<open>The category tests and the routing\<close>

definition is_source_python :: "string \<Rightarrow> bool" where
  "is_source_python package = (package = ''source-python'')"

definition is_custom_package :: "env \<Rightarrow> disk \<Rightarrow> string \<Rightarrow> error + bool" where
  "is_custom_package E d package =
     (case listdir (CUSTOM_PACKAGES_PATH E) d of
        Inl e \<Rightarrow> Inl e
      | Inr qs \<Rightarrow> Inr (package \<in> set (map namebase qs)))"

definition is_plugin :: "env \<Rightarrow> disk \<Rightarrow> string \<Rightarrow> error + bool" where
  "is_plugin E d package =
     (case dirs (PLUGIN_PATH E) d of
        Inl e \<Rightarrow> Inl e
      | Inr qs \<Rightarrow> Inr (package \<in> set (map namebase qs)))"

definition not_a_package :: "string \<Rightarrow> string" where
  "not_a_package package =
     DQ @ package @ DQ @ '' is not source-python, a custom package or a plugin.''"

definition create_sphinx_project :: "env \<Rightarrow> string \<Rightarrow> world \<Rightarrow> result" where
  "create_sphinx_project E package w =
     (if is_source_python package then create_source_python_docs E w
      else case is_custom_package E (disk w) package of
        Inl e \<Rightarrow> Inl (e, w)
      | Inr True \<Rightarrow> create_custom_package_docs E package w
      | Inr False \<Rightarrow>
          (case is_plugin E (disk w) package of
             Inl e \<Rightarrow> Inl (e, w)
           | Inr True \<Rightarrow> create_plugin_docs E package w
           | Inr False \<Rightarrow> Inr (log_message (not_a_package package) w)))"

definition generate_sphinx_project :: "env \<Rightarrow> string \<Rightarrow> world \<Rightarrow> result" where
  "generate_sphinx_project E package w =
     (if is_source_python package then generate_source_python_docs E w
      else case is_custom_package E (disk w) package of
        Inl e \<Rightarrow> Inl (e, w)
      | Inr True \<Rightarrow> generate_custom_package_docs E package w
      | Inr False \<Rightarrow>
          (case is_plugin E (disk w) package of
             Inl e \<Rightarrow> Inl (e, w)
           | Inr True \<Rightarrow> generate_plugin_docs E package w
           | Inr False \<Rightarrow> Inr (log_message (not_a_package package) w)))"

definition build_sphinx_project :: "env \<Rightarrow> string \<Rightarrow> world \<Rightarrow> result" where
  "build_sphinx_project E package w =
     (if is_source_python package then build_source_python_docs E w
      else case is_custom_package E (disk w) package of
        Inl e \<Rightarrow> Inl (e, w)
      | Inr True \<Rightarrow> build_custom_package_docs E package w
      | Inr False \<Rightarrow>
          (case is_plugin E (disk w) package of
             Inl e \<Rightarrow> Inl (e, w)
           | Inr True \<Rightarrow> build_plugin_docs E package w
           | Inr False \<Rightarrow> Inr (log_message (not_a_package package) w)))"

definition docs_handler :: "env \<Rightarrow> string \<Rightarrow> string \<Rightarrow> world \<Rightarrow> result" where
  "docs_handler E action package w =
     (if action = ''create'' then create_sphinx_project E package w
      else if action = ''generate'' then generate_sphinx_project E package w
      else if action = ''build'' then build_sphinx_project E package w
      else Inr (log_message
             (''Invalid action: '' @ DQ @ action @ DQ @ ''. Valid action are: create, generate and build'') w))"

subsection \<open>Notions used to state the properties\<close>

text \<open>The state a handler leaves, whether it returned or raised.\<close>

fun final_world :: "result \<Rightarrow> world" where
  "final_world (Inl (e, w)) = w"
| "final_world (Inr w) = w"

text \<open>The calls a handler added to those of the state \<open>w\<close> it started from.\<close>

definition new_calls :: "world \<Rightarrow> result \<Rightarrow> (call \<times> bool) list" where
  "new_calls w r = drop (length (calls w)) (calls (final_world r))"

text \<open>The word a report uses for the verb of a call, and the name it uses for a package.\<close>

fun verb_word :: "call \<Rightarrow> string" where
  "verb_word (Create p args) = ''creating''"
| "verb_word (Generate p) = ''generating''"
| "verb_word (Build p) = ''building''"
| "verb_word (Dump name filename) = ''dumping''"

definition report_name :: "string \<Rightarrow> string" where
  "report_name package = (if package = ''source-python'' then ''Source.Python'' else package)"

text \<open>The padding of the credits report in the words of its description.\<close>

definition credit_padding :: "string \<Rightarrow> string" where
  "credit_padding name = replicate (nat (max 0 (20 - int (length name)))) (CHR '' '')"

text \<open>
  The rewriting of one line of conf.py in the words of its description: a line that
  starts with version or release becomes its first word, the text \<^verbatim>\<open> = ' \<close>, the
  version and \<^verbatim>\<open>'\<close> with a newline; any other line stays.
\<close>

definition conf_line_spec :: "string \<Rightarrow> string \<Rightarrow> string" where
  "conf_line_spec version line =
     (if prefix ''version'' line \<or> prefix ''release'' line
      then takeWhile (\<lambda>c. \<not> isspace c) line @ '' = '' @ SQ @ '' '' @ version @ SQ @ NL
      else line)"

text \<open>
  The record of one plugin in the list report: its name alone when it has no info,
  else its name with a colon and one entry per item of the info.
\<close>

fun plugin_record :: "string \<Rightarrow> plugin_info option \<Rightarrow> string" where
  "plugin_record name None = name @ NL"
| "plugin_record name (Some items) =
     name @ '':'' @ NL @
     concat (map (\<lambda>(item, val). TAB @ item @ '':'' @ NL @ TAB @ TAB @ value_str val @ NL) items)"

text \<open>What the loop over the description files does to a node of the disk.\<close>

definition strip_node :: "string \<Rightarrow> node \<Rightarrow> node" where
  "strip_node eol n =
     (case n of
        File bytes \<Rightarrow> File (text_write eol (replace (text_read bytes) ''source-python.'' []))
      | Dir \<Rightarrow> Dir)"

text \<open>
  The bytes of conf.py after the rewriting, in the words of its description: the file
  is read in text mode, cut into lines, every line rewritten or kept, and the lines
  written in text mode.
\<close>

definition conf_rewritten :: "env \<Rightarrow> string \<Rightarrow> string" where
  "conf_rewritten E bytes =
     text_write (linesep E)
       (concat (map (conf_line_spec (VERSION E)) (readlines (text_read bytes))))"

subsection \<open>A concrete installation\<close>

text \<open>
  An installation to evaluate the handlers on: a custom package \<open>mypkg\<close>, a plugin
  \<open>myplugin\<close> with a project, the name \<open>both\<close> under both roots, and the project of
  Source.Python with its conf.py and one description file.
\<close>

definition demo_disk :: disk where
  "demo_disk =
     [([''packages'', ''custom''], Dir),
      ([''packages'', ''custom'', ''both''], Dir),
      ([''packages'', ''custom'', ''mypkg.py''], File []),
      ([''plugins''], Dir),
      ([''plugins'', ''both''], Dir),
      ([''plugins'', ''myplugin''], Dir),
      ([''docs'', ''plugins'', ''myplugin''], Dir),
      ([''docs'', ''source-python''], Dir),
      ([''docs'', ''source-python'', ''source''], Dir),
      ([''docs'', ''source-python'', ''source'', ''conf.py''],
         File (''project = 1'' @ NL @ ''version = 0'' @ NL @ ''release=0'')),
      ([''docs'', ''source-python'', ''source'', ''core.rst''],
         File ''source-python.core.command'')]"

definition demo_env :: env where
  "demo_env =
     \<lparr>prefix_str = ''[SP] '',
      plugins_title = ''Loaded plugins:'',
      credits_title = ''Credits:'',
      VERSION = ''42'',
      SP_DOCS_PATH = [''docs'', ''source-python''],
      CUSTOM_PACKAGES_DOCS_PATH = [''docs'', ''custom''],
      PLUGIN_DOCS_PATH = [''docs'', ''plugins''],
      SP_PACKAGES_PATH = [''packages'', ''source-python''],
      CUSTOM_PACKAGES_PATH = [''packages'', ''custom''],
      PLUGIN_PATH = [''plugins''],
      SP_DATA_PATH = [''data''],
      project_exists = (\<lambda>p d. isdir (project_dir p) d),
      project_source_dir = (\<lambda>p. joinpath (project_dir p) ''source''),
      project_create = (\<lambda>p args d. Returned (d @ [(project_dir p, Dir)])),
      generate_project_files = (\<lambda>p d. Returned d),
      project_build = (\<lambda>p d. Returned d),
      dumps_all = [''dump_class_info'', ''dump_convars''],
      dumps_call = (\<lambda>name filename d. Returned d),
      float_ok = (\<lambda>s. s \<noteq> [] \<and> list_all (\<lambda>c. c \<in> set ''0123456789'') s),
      linesep = NL,
      ConfigObj = (\<lambda>p d. Inr [(''Developers'', [(''Ayuto'', ''lead''),
                                   (''a name of twenty-two c'', ''x'')])])\<rparr>"

text \<open>The same installation with a project capability that raises, leaving the disk as it is.\<close>

definition failing_env :: env where
  "failing_env =
     demo_env\<lparr>project_create := (\<lambda>p args d. Raised d),
              generate_project_files := (\<lambda>p d. Raised d),
              project_build := (\<lambda>p d. Raised d)\<rparr>"

text \<open>
  The installation on a system whose \<^verbatim>\<open>os.linesep\<close> is a newline, with a conf.py whose
  lines end in carriage return and newline.
\<close>

definition crlf_world :: world where
  "crlf_world =
     \<lparr>disk = AList.update [''docs'', ''source-python'', ''source'', ''conf.py'']
               (File (''project = 1'' @ CR @ NL @ ''version = 0'' @ CR @ NL)) demo_disk,
      manager = [], logged = [], calls = [], delays = []\<rparr>"

definition demo_world :: world where
  "demo_world =
     \<lparr>disk = demo_disk,
      manager = [(''zulu'', None), (''alpha'', Some [(''author'', Plain ''me'')]), (''mu'', None)],
      logged = [], calls = [], delays = []\<rparr>"

section \<open>Properties\<close>

subsection \<open>The credits report\<close>

lemma str_mul_char: "str_mul [c] n = replicate (nat n) c"
  by (induction "nat n" arbitrary: n)
     (auto simp: str_mul_def replicate_Suc[symmetric] simp del: replicate_Suc)

lemma credits_names_eq:
  "credits_names names message =
     message @ concat (map (\<lambda>(name, role). TAB @ TAB @ name @ credit_padding name @ role @ NL) names)"
  by (induction names arbitrary: message)
     (auto simp: credit_padding_def str_mul_char)

lemma credits_groups_eq:
  "credits_groups groups message =
     message @ concat (map (\<lambda>(grp, names). TAB @ grp @ '':'' @ NL @
        concat (map (\<lambda>(name, role). TAB @ TAB @ name @ credit_padding name @ role @ NL) names) @ NL) groups)"
  by (induction groups arbitrary: message) (auto simp: credits_names_eq)

text \<open>
  C10: in the credits report every name is followed by exactly max(0, 20 - length name)
  spaces and then by its role. The report is the header, one block per group (the
  group line, one such line per name, a blank line) and the closing rule. A name
  shorter than 20 characters puts its role at a fixed column (22 characters into the
  line, counting the two tabs); a name of 20 characters or more is followed by its
  role with nothing between them.
\<close>

theorem print_credits_padding:
  assumes "ConfigObj E (joinpath (SP_DATA_PATH E) ''credits.ini'') (disk w) = Inr groups"
  shows "print_credits E w =
           Inr (log_message
             (prefix_str E @ credits_title E @ NL @ replicate 61 (CHR ''='') @ NL @ NL @
              concat (map (\<lambda>(grp, names). TAB @ grp @ '':'' @ NL @
                concat (map (\<lambda>(name, role).
                  TAB @ TAB @ name @ credit_padding name @ role @ NL) names) @ NL) groups) @
              replicate 61 (CHR ''='') @ NL @ NL) w)
         \<and> (\<forall>name. credit_padding name = replicate (nat (max 0 (20 - int (length name)))) (CHR '' '')
              \<and> (if length name < 20 then length (TAB @ TAB @ name @ credit_padding name) = 22
                  else TAB @ TAB @ name @ credit_padding name = TAB @ TAB @ name))"
proof -
  have "print_credits E w = Inr (log_message
             (prefix_str E @ credits_title E @ NL @ replicate 61 (CHR ''='') @ NL @ NL @
              concat (map (\<lambda>(grp, names). TAB @ grp @ '':'' @ NL @
                concat (map (\<lambda>(name, role).
                  TAB @ TAB @ name @ credit_padding name @ role @ NL) names) @ NL) groups) @
              replicate 61 (CHR ''='') @ NL @ NL) w)"
    using assms by (simp add: print_credits_def credits_groups_eq str_mul_char)
  moreover have "length name < 20 \<Longrightarrow> length (TAB @ TAB @ name @ credit_padding name) = 22" for name
    by (simp add: credit_padding_def)
  moreover have "\<not> length name < 20 \<Longrightarrow> credit_padding name = []" for name
    by (simp add: credit_padding_def)
  ultimately show ?thesis
    by (simp add: credit_padding_def)
qed

theorem print_credits_padding_witness:
  "print_credits demo_env demo_world =
     Inr (log_message
       (''[SP] Credits:'' @ NL @ replicate 61 (CHR ''='') @ NL @ NL @
        TAB @ ''Developers:'' @ NL @
        TAB @ TAB @ ''Ayuto               lead'' @ NL @
        TAB @ TAB @ ''a name of twenty-two cx'' @ NL @ NL @
        replicate 61 (CHR ''='') @ NL @ NL) demo_world)"
proof -
  have h: "ConfigObj demo_env (joinpath (SP_DATA_PATH demo_env) ''credits.ini'') (disk demo_world)
             = Inr [(''Developers'', [(''Ayuto'', ''lead''), (''a name of twenty-two c'', ''x'')])]"
    by (simp add: demo_env_def)
  show ?thesis
    unfolding print_credits_padding [OF h, THEN conjunct1]
    by (simp add: credit_padding_def demo_env_def eval_nat_numeral)
qed

subsection \<open>The list report\<close>

lemma info_items_eq:
  "info_items items message =
     message @ concat (map (\<lambda>(item, val). TAB @ item @ '':'' @ NL @ TAB @ TAB @ value_str val @ NL) items)"
  by (induction items arbitrary: message) auto

lemma plugins_loop_eq:
  "set names \<subseteq> dom (map_of m) \<Longrightarrow>
   plugins_loop m names message =
     Inr (message @ concat (map (\<lambda>n. plugin_record n (the (map_of m n)) @ NL) names))"
proof (induction names arbitrary: message)
  case Nil
  then show ?case by simp
next
  case (Cons n names)
  then obtain info where i: "map_of m n = Some info" by auto
  from Cons.prems have sub: "set names \<subseteq> dom (map_of m)" by simp
  show ?case
    by (cases info) (simp_all add: i Cons.IH [OF sub] info_items_eq)
qed

lemma set_dict_keys: "set (dict_keys m) = dom (map_of m)"
  by (simp add: dict_keys_def dom_map_of_conv_image_fst)

lemma sort_dict_keys_cong:
  assumes "map_of m' = map_of m"
  shows "sort (dict_keys m') = sort (dict_keys m)"
proof (rule sorted_distinct_set_unique)
  show "set (sort (dict_keys m')) = set (sort (dict_keys m))"
    using assms by (simp add: set_dict_keys)
qed (simp_all add: dict_keys_def)

lemma print_plugins_eq:
  "print_plugins E w =
     Inr (log_message
       (prefix_str E @ plugins_title E @ NL @ replicate 61 (CHR ''='') @ NL @ NL @
        concat (map (\<lambda>n. plugin_record n (the (map_of (manager w) n)) @ NL)
                 (sort (dict_keys (manager w)))) @
        replicate 61 (CHR ''='')) w)"
proof -
  have "set (sort (dict_keys (manager w))) \<subseteq> dom (map_of (manager w))"
    by (simp add: set_dict_keys)
  from plugins_loop_eq [OF this] show ?thesis
    by (simp add: print_plugins_def str_mul_char)
qed



text \<open>
  C8: the list report is one string given to the logger: the registry prefix and the
  title, a rule of 61 equals signs and a blank line, then for every loaded plugin its
  record followed by one blank line, then a closing rule of 61 equals signs. The
  plugins appear in lexicographic order of their names, each once, whatever the order
  they were loaded in: two states of the manager that hold the same plugins give the
  same report.
\<close>

theorem print_plugins_report:
  "print_plugins E w =
     Inr (log_message
       (prefix_str E @ plugins_title E @ NL @ replicate 61 (CHR ''='') @ NL @ NL @
        concat (map (\<lambda>n. plugin_record n (the (map_of (manager w) n)) @ NL)
                 (sort (dict_keys (manager w)))) @
        replicate 61 (CHR ''='')) w)
   \<and> sorted (sort (dict_keys (manager w)))
   \<and> distinct (sort (dict_keys (manager w)))
   \<and> set (sort (dict_keys (manager w))) = fst ` set (manager w)
   \<and> (\<forall>w'. map_of (manager w') = map_of (manager w) \<and> logged w' = logged w \<longrightarrow>
         logged (final_world (print_plugins E w')) = logged (final_world (print_plugins E w)))"
proof (intro conjI allI impI)
  show "sorted (sort (dict_keys (manager w)))" by simp
  show "distinct (sort (dict_keys (manager w)))" by (simp add: dict_keys_def)
  show "set (sort (dict_keys (manager w))) = fst ` set (manager w)"
    by (simp add: dict_keys_def)
next
  fix w' :: world assume a: "map_of (manager w') = map_of (manager w) \<and> logged w' = logged w"
  then have k: "sort (dict_keys (manager w')) = sort (dict_keys (manager w))"
    by (intro sort_dict_keys_cong) simp
  show "logged (final_world (print_plugins E w')) = logged (final_world (print_plugins E w))"
    unfolding print_plugins_eq [of E w'] print_plugins_eq [of E w] k
    using a by (simp add: log_message_def)
qed (rule print_plugins_eq)


lemma demo_manager_reloaded: "map_of (manager (demo_world\<lparr>manager := [(''mu'', None), (''zulu'', None),
                                 (''alpha'', Some [(''author'', Plain ''me'')])]\<rparr>))
           = map_of (manager demo_world)"
    by (rule ext) (simp add: demo_world_def)

theorem print_plugins_report_witness:
  "print_plugins demo_env demo_world =
     Inr (log_message
       (''[SP] Loaded plugins:'' @ NL @ replicate 61 (CHR ''='') @ NL @ NL @
        ''alpha:'' @ NL @ TAB @ ''author:'' @ NL @ TAB @ TAB @ ''me'' @ NL @ NL @
        ''mu'' @ NL @ NL @
        ''zulu'' @ NL @ NL @
        replicate 61 (CHR ''='')) demo_world)
   \<and> logged (final_world (print_plugins demo_env
        (demo_world\<lparr>manager := [(''mu'', None), (''zulu'', None),
                                 (''alpha'', Some [(''author'', Plain ''me'')])]\<rparr>)))
     = logged (final_world (print_plugins demo_env demo_world))"
proof (rule conjI)
  note t = print_plugins_report [of demo_env demo_world]
  have s: "sort (dict_keys (manager demo_world)) = [''alpha'', ''mu'', ''zulu'']"
    by (simp add: demo_world_def dict_keys_def)
  have v: "map (\<lambda>n. the (map_of (manager demo_world) n)) [''alpha'', ''mu'', ''zulu'']
             = [Some [(''author'', Plain ''me'')], None, None]"
    by (simp add: demo_world_def)
  show "print_plugins demo_env demo_world =
     Inr (log_message
       (''[SP] Loaded plugins:'' @ NL @ replicate 61 (CHR ''='') @ NL @ NL @
        ''alpha:'' @ NL @ TAB @ ''author:'' @ NL @ TAB @ TAB @ ''me'' @ NL @ NL @
        ''mu'' @ NL @ NL @
        ''zulu'' @ NL @ NL @
        replicate 61 (CHR ''='')) demo_world)"
    unfolding t [THEN conjunct1] s
    using v by (simp add: demo_env_def)
  show "logged (final_world (print_plugins demo_env
        (demo_world\<lparr>manager := [(''mu'', None), (''zulu'', None),
                                 (''alpha'', Some [(''author'', Plain ''me'')])]\<rparr>)))
     = logged (final_world (print_plugins demo_env demo_world))"
    by (rule t [THEN conjunct2, THEN conjunct2, THEN conjunct2, THEN conjunct2, rule_format])
       (rule conjI, rule demo_manager_reloaded, simp add: demo_world_def)
qed

subsection \<open>Arguments the handlers do not accept\<close>

lemma dump_names_eq:
  "dump_names names w = w\<lparr>logged := logged w @ map (\<lambda>dump. TAB @ replace dump ''dump_'' []) names\<rparr>"
  by (induction names arbitrary: w) (simp_all add: log_message_def)

lemma replace_scan_absent:
  "\<not> sublist old s \<Longrightarrow> replace_scan old new s = s"
proof (induction old new s rule: replace_scan.induct)
  case (1 old new)
  then show ?case by simp
next
  case (2 old new c cs)
  from "2.prems" have np: "\<not> prefix old (c # cs)" and ns: "\<not> sublist old cs"
    by (auto simp: sublist_Cons_right)
  with "2.IH"(2) show ?case by simp
qed

lemma replace_strips_prefix:
  assumes "\<not> sublist ''dump_'' x"
  shows "replace (''dump_'' @ x) ''dump_'' [] = x"
  using replace_scan_absent [OF assms, of "[]"] by (simp add: replace_def)

text \<open>
  C9: when dump_ followed by the dump type is not among the exported dump function
  names, dump_data logs the invalid-type message and then one line per exported name,
  a tab and the name without dump_, and the state is otherwise unchanged: no dump
  function is called. Otherwise it logs nothing and makes exactly one call: the
  function dump_ followed by the dump type, with the file name as its argument. The
  line of a name is written with \<^verbatim>\<open>replace('dump_', '')\<close>; for a name that is dump_
  followed by a text without dump_ in it, this is the name with its prefix stripped.
\<close>

theorem dump_data_cases:
  "(''dump_'' @ dump_type \<notin> set (dumps_all E) \<longrightarrow>
      dump_data E dump_type filename w =
        Inr (w\<lparr>logged := logged w @
               (''Invalid dump_type '' @ DQ @ dump_type @ DQ @ ''. The valid types are:'') #
               map (\<lambda>dump. TAB @ replace dump ''dump_'' []) (dumps_all E)\<rparr>))
   \<and> (''dump_'' @ dump_type \<in> set (dumps_all E) \<longrightarrow>
      final_world (dump_data E dump_type filename w) =
        w\<lparr>disk := disk_of (dumps_call E (''dump_'' @ dump_type) filename (disk w)),
          calls := calls w @
            [(Dump (''dump_'' @ dump_type) filename,
              raised (dumps_call E (''dump_'' @ dump_type) filename (disk w)))]\<rparr>)
   \<and> (\<forall>x. \<not> sublist ''dump_'' x \<longrightarrow> TAB @ replace (''dump_'' @ x) ''dump_'' [] = TAB @ x)"
proof (intro conjI allI impI)
  fix x :: string assume h: "\<not> sublist ''dump_'' x"
  show "TAB @ replace (''dump_'' @ x) ''dump_'' [] = TAB @ x"
    by (simp only: replace_strips_prefix [OF h])
qed (simp_all add: dump_data_def dump_names_eq log_message_def called_def Let_def)

theorem dump_data_cases_witness:
  "dump_data demo_env ''weapons'' ''out.txt'' demo_world =
     Inr (demo_world\<lparr>logged :=
        [''Invalid dump_type '' @ DQ @ ''weapons'' @ DQ @ ''. The valid types are:'',
         TAB @ ''class_info'', TAB @ ''convars'']\<rparr>)
   \<and> final_world (dump_data demo_env ''convars'' ''out.txt'' demo_world) =
       demo_world\<lparr>calls := [(Dump ''dump_convars'' ''out.txt'', False)]\<rparr>"
proof -
  note t = dump_data_cases [of "''weapons''" demo_env "''out.txt''" demo_world, THEN conjunct1]
  note u = dump_data_cases [of "''convars''" demo_env "''out.txt''" demo_world,
             THEN conjunct2, THEN conjunct1]
  have a: "''dump_'' @ ''weapons'' \<notin> set (dumps_all demo_env)"
    by (simp add: demo_env_def)
  have b: "''dump_'' @ ''convars'' \<in> set (dumps_all demo_env)"
    by (simp add: demo_env_def)
  have r: "map (\<lambda>dump. TAB @ replace dump ''dump_'' []) (dumps_all demo_env)
           = [TAB @ ''class_info'', TAB @ ''convars'']"
    by (simp add: demo_env_def replace_def)
  show ?thesis
    unfolding t [rule_format, OF a] u [rule_format, OF b] r
    by (simp add: demo_env_def demo_world_def)
qed

text \<open>
  C7, as stated, fails: delay_execution converts its first token with \<^verbatim>\<open>float\<close>
  outside any \<^verbatim>\<open>try\<close>. With the token abc the handler raises ValueError and the
  state, its log included, is what it was.
\<close>

theorem delay_execution_counterexample:
  "\<not> float_ok demo_env ''abc''
   \<and> delay_execution demo_env [''abc'', ''echo'', ''hi''] demo_world = Inl (ValueError, demo_world)"
  by (simp add: delay_execution_def demo_env_def)

text \<open>
  C7, amended: delay_execution does not check its delay token. When the token cannot
  be converted, ValueError leaves the handler, nothing is logged and nothing is
  scheduled; when it can, the command is scheduled. The handlers dump_data and
  docs_handler do report an argument they do not know (the dump type, the action)
  through the logger and return.
\<close>

theorem argument_errors:
  "(\<not> float_ok E a \<longrightarrow> delay_execution E (a # rest) w = Inl (ValueError, w))
   \<and> (float_ok E a \<longrightarrow>
        delay_execution E (a # rest) w = Inr (w\<lparr>delays := delays w @ [(a, join '' '' rest @ NL)]\<rparr>))
   \<and> (''dump_'' @ dump_type \<notin> set (dumps_all E) \<longrightarrow>
        dump_data E dump_type filename w =
           Inr (w\<lparr>logged := logged w @
             (''Invalid dump_type '' @ DQ @ dump_type @ DQ @ ''. The valid types are:'') #
             map (\<lambda>dump. TAB @ replace dump ''dump_'' []) (dumps_all E)\<rparr>))
   \<and> (action \<notin> {''create'', ''generate'', ''build''} \<longrightarrow>
        docs_handler E action package w =
          Inr (log_message (''Invalid action: '' @ DQ @ action @ DQ @
                 ''. Valid action are: create, generate and build'') w))"
  by (simp add: delay_execution_def dump_data_def dump_names_eq log_message_def docs_handler_def)

theorem argument_errors_witness:
  "delay_execution demo_env [''abc'', ''echo'', ''hi''] demo_world = Inl (ValueError, demo_world)
   \<and> delay_execution demo_env [''5'', ''echo'', ''hi''] demo_world =
       Inr (demo_world\<lparr>delays := [(''5'', ''echo hi'' @ NL)]\<rparr>)
   \<and> docs_handler demo_env ''destroy'' ''myplugin'' demo_world =
       Inr (log_message (''Invalid action: '' @ DQ @ ''destroy'' @ DQ @
                 ''. Valid action are: create, generate and build'') demo_world)"
proof -
  note t = argument_errors [of demo_env "''abc''" "[''echo'', ''hi'']" demo_world
             "''x''" "''f''" "''destroy''" "''myplugin''"]
  note u = argument_errors [of demo_env "''5''" "[''echo'', ''hi'']" demo_world
             "''x''" "''f''" "''destroy''" "''myplugin''"]
  have a: "\<not> float_ok demo_env ''abc''" by (simp add: demo_env_def)
  have b: "float_ok demo_env ''5''" by (simp add: demo_env_def)
  have c: "''destroy'' \<notin> {''create'', ''generate'', ''build''}" by simp
  show ?thesis
    unfolding t [THEN conjunct1, rule_format, OF a]
      u [THEN conjunct2, THEN conjunct1, rule_format, OF b]
      t [THEN conjunct2, THEN conjunct2, THEN conjunct2, rule_format, OF c]
    by (simp add: demo_world_def)
qed

text \<open>
  C4: for an action other than create, generate and build, docs_handler logs the
  usage message that lists the three actions and does nothing else, whatever the disk
  holds: no listing is read and the project capability is not called. For one of the
  three actions and a package that is not source-python, not among the custom packages
  and not among the plugins, it logs the one message that names source-python, custom
  package and plugin, and does nothing else.
\<close>

theorem docs_handler_rejects:
  "(action \<notin> {''create'', ''generate'', ''build''} \<longrightarrow>
      docs_handler E action package w =
        Inr (log_message (''Invalid action: '' @ DQ @ action @ DQ @
               ''. Valid action are: create, generate and build'') w))
   \<and> (action \<in> {''create'', ''generate'', ''build''}
       \<and> \<not> is_source_python package
       \<and> is_custom_package E (disk w) package = Inr False
       \<and> is_plugin E (disk w) package = Inr False \<longrightarrow>
      docs_handler E action package w =
        Inr (log_message
              (DQ @ package @ DQ @ '' is not source-python, a custom package or a plugin.'') w))"
  by (auto simp: docs_handler_def create_sphinx_project_def generate_sphinx_project_def
        build_sphinx_project_def not_a_package_def)

theorem docs_handler_rejects_witness:
  "docs_handler failing_env ''destroy'' ''myplugin'' demo_world =
      Inr (log_message (''Invalid action: '' @ DQ @ ''destroy'' @ DQ @
               ''. Valid action are: create, generate and build'') demo_world)
   \<and> docs_handler failing_env ''build'' ''unknownpkg'' demo_world =
      Inr (log_message
            (DQ @ ''unknownpkg'' @ DQ @ '' is not source-python, a custom package or a plugin.'')
            demo_world)"
proof -
  note t = docs_handler_rejects [of "''destroy''" failing_env "''myplugin''" demo_world, THEN conjunct1]
  note u = docs_handler_rejects [of "''build''" failing_env "''unknownpkg''" demo_world, THEN conjunct2]
  have a: "''destroy'' \<notin> {''create'', ''generate'', ''build''}" by simp
  have b: "''build'' \<in> {''create'', ''generate'', ''build''}
       \<and> \<not> is_source_python ''unknownpkg''
       \<and> is_custom_package failing_env (disk demo_world) ''unknownpkg'' = Inr False
       \<and> is_plugin failing_env (disk demo_world) ''unknownpkg'' = Inr False"
    by (simp add: is_source_python_def is_custom_package_def is_plugin_def failing_env_def
          demo_env_def demo_world_def demo_disk_def listdir_def dirs_def isdir_def namebase_def
          splitext_root_def)
  show ?thesis
    unfolding t [rule_format, OF a] u [rule_format, OF b] by simp
qed

subsection \<open>Routing by category\<close>

lemmas sphinx_project_defs =
  create_sphinx_project_def generate_sphinx_project_def build_sphinx_project_def

text \<open>
  C3: the three routers test the package name in a fixed order and the first test that
  holds decides. The name source-python goes to the Source.Python routine, whatever
  the disk holds. Any other name found among the entries of the custom package
  directory goes to the custom package routine, whatever the plugin directory holds.
  A name found in neither way but among the subdirectories of the plugin directory
  goes to the plugin routine. In particular a name that stands under both directories
  is handled as a custom package by create, generate and build.
\<close>

theorem category_precedence:
  "(is_source_python package \<longrightarrow>
      create_sphinx_project E package w = create_source_python_docs E w
      \<and> generate_sphinx_project E package w = generate_source_python_docs E w
      \<and> build_sphinx_project E package w = build_source_python_docs E w)
   \<and> (\<not> is_source_python package \<and> is_custom_package E (disk w) package = Inr True \<longrightarrow>
      create_sphinx_project E package w = create_custom_package_docs E package w
      \<and> generate_sphinx_project E package w = generate_custom_package_docs E package w
      \<and> build_sphinx_project E package w = build_custom_package_docs E package w)
   \<and> (\<not> is_source_python package \<and> is_custom_package E (disk w) package = Inr False
       \<and> is_plugin E (disk w) package = Inr True \<longrightarrow>
      create_sphinx_project E package w = create_plugin_docs E package w
      \<and> generate_sphinx_project E package w = generate_plugin_docs E package w
      \<and> build_sphinx_project E package w = build_plugin_docs E package w)
   \<and> (package \<noteq> ''source-python''
       \<and> listdir (CUSTOM_PACKAGES_PATH E) (disk w) = Inr cs \<and> package \<in> namebase ` set cs
       \<and> dirs (PLUGIN_PATH E) (disk w) = Inr ps \<and> package \<in> namebase ` set ps \<longrightarrow>
      docs_handler E ''create'' package w = create_custom_package_docs E package w
      \<and> docs_handler E ''generate'' package w = generate_custom_package_docs E package w
      \<and> docs_handler E ''build'' package w = build_custom_package_docs E package w)"
  by (simp add: sphinx_project_defs docs_handler_def is_source_python_def is_custom_package_def)

lemma demo_custom_listing:
  "listdir (CUSTOM_PACKAGES_PATH demo_env) (disk demo_world) =
     Inr [[''packages'', ''custom'', ''both''], [''packages'', ''custom'', ''mypkg.py'']]"
  by (simp add: demo_env_def demo_world_def demo_disk_def listdir_def isdir_def)

lemma demo_plugin_listing:
  "dirs (PLUGIN_PATH demo_env) (disk demo_world) =
     Inr [[''plugins'', ''both''], [''plugins'', ''myplugin'']]"
  by (simp add: demo_env_def demo_world_def demo_disk_def dirs_def listdir_def isdir_def)

theorem category_precedence_witness:
  "docs_handler demo_env ''create'' ''both'' demo_world =
     create_custom_package_docs demo_env ''both'' demo_world
   \<and> docs_handler demo_env ''generate'' ''both'' demo_world =
     generate_custom_package_docs demo_env ''both'' demo_world
   \<and> docs_handler demo_env ''build'' ''both'' demo_world =
     build_custom_package_docs demo_env ''both'' demo_world
   \<and> logged (final_world (docs_handler demo_env ''create'' ''both'' demo_world)) =
     [''Sphinx project has been created for custom package '' @ DQ @ ''both'' @ DQ @ ''.'']"
proof -
  have h: "''both'' \<noteq> ''source-python''
       \<and> listdir (CUSTOM_PACKAGES_PATH demo_env) (disk demo_world) =
           Inr [[''packages'', ''custom'', ''both''], [''packages'', ''custom'', ''mypkg.py'']]
       \<and> ''both'' \<in> namebase ` set [[''packages'', ''custom'', ''both''], [''packages'', ''custom'', ''mypkg.py'']]
       \<and> dirs (PLUGIN_PATH demo_env) (disk demo_world) =
           Inr [[''plugins'', ''both''], [''plugins'', ''myplugin'']]
       \<and> ''both'' \<in> namebase ` set [[''plugins'', ''both''], [''plugins'', ''myplugin'']]"
    by (simp add: demo_custom_listing demo_plugin_listing namebase_def splitext_root_def)
  note t = category_precedence [of "''both''" demo_env demo_world _ _,
      THEN conjunct2, THEN conjunct2, THEN conjunct2, rule_format, OF h]
  have "logged (final_world (create_custom_package_docs demo_env ''both'' demo_world)) =
     [''Sphinx project has been created for custom package '' @ DQ @ ''both'' @ DQ @ ''.'']"
    by (simp add: create_custom_package_docs_def custom_package_project_def try_call_def
          called_def log_message_def demo_env_def demo_world_def demo_disk_def isdir_def joinpath_def)
  with t show ?thesis by simp
qed

text \<open>
  C2: for a package of any of the three categories, create on a project that exists
  only logs that the project already exists, and generate and build on a project that
  does not exist only log that it does not exist. The state is otherwise the one the
  handler started from: the disk is unchanged and no call of the project capability
  is recorded.
\<close>

theorem lifecycle_noop:
  "(is_source_python package \<longrightarrow>
      (project_exists E (source_python_project E) (disk w) \<longrightarrow>
         docs_handler E ''create'' package w =
           Inr (log_message ''Sphinx project already exists for Source.Python'' w))
      \<and> (\<not> project_exists E (source_python_project E) (disk w) \<longrightarrow>
         docs_handler E ''generate'' package w =
           Inr (log_message ''Sphinx project does not exist for Source.Python.'' w)
         \<and> docs_handler E ''build'' package w =
           Inr (log_message ''Sphinx project does not exist for Source.Python.'' w)))
   \<and> (\<not> is_source_python package \<and> is_custom_package E (disk w) package = Inr True \<longrightarrow>
      (project_exists E (custom_package_project E package) (disk w) \<longrightarrow>
         docs_handler E ''create'' package w =
           Inr (log_message
             (''Sphinx project already exists for custom package '' @ DQ @ package @ DQ @ ''.'') w))
      \<and> (\<not> project_exists E (custom_package_project E package) (disk w) \<longrightarrow>
         docs_handler E ''generate'' package w =
           Inr (log_message
             (''Sphinx project does not exist for custom package '' @ DQ @ package @ DQ @ ''.'') w)
         \<and> docs_handler E ''build'' package w =
           Inr (log_message
             (''Sphinx project does not exist for custom package '' @ DQ @ package @ DQ @ ''.'') w)))
   \<and> (\<not> is_source_python package \<and> is_custom_package E (disk w) package = Inr False
       \<and> is_plugin E (disk w) package = Inr True \<longrightarrow>
      (project_exists E (plugin_project E package) (disk w) \<longrightarrow>
         docs_handler E ''create'' package w =
           Inr (log_message
             (''Sphinx project already exists for plugin '' @ DQ @ package @ DQ @ ''.'') w))
      \<and> (\<not> project_exists E (plugin_project E package) (disk w) \<longrightarrow>
         docs_handler E ''generate'' package w =
           Inr (log_message
             (''Sphinx project does not exist for plugin '' @ DQ @ package @ DQ @ ''.'') w)
         \<and> docs_handler E ''build'' package w =
           Inr (log_message
             (''Sphinx project does not exist for plugin '' @ DQ @ package @ DQ @ ''.'') w)))"
  by (simp add: docs_handler_def sphinx_project_defs
        create_source_python_docs_def generate_source_python_docs_def build_source_python_docs_def
        create_custom_package_docs_def generate_custom_package_docs_def build_custom_package_docs_def
        create_plugin_docs_def generate_plugin_docs_def build_plugin_docs_def Let_def)

lemma demo_is_custom:
  "is_custom_package demo_env (disk demo_world) ''mypkg'' = Inr True"
  "is_custom_package demo_env (disk demo_world) ''myplugin'' = Inr False"
  by (simp_all add: is_custom_package_def demo_custom_listing namebase_def splitext_root_def)

lemma demo_is_plugin:
  "is_plugin demo_env (disk demo_world) ''myplugin'' = Inr True"
  by (simp add: is_plugin_def demo_plugin_listing namebase_def splitext_root_def)

lemma failing_env_paths:
  "CUSTOM_PACKAGES_PATH failing_env = CUSTOM_PACKAGES_PATH demo_env"
  "PLUGIN_PATH failing_env = PLUGIN_PATH demo_env"
  by (simp_all add: failing_env_def)

theorem lifecycle_noop_witness:
  "docs_handler demo_env ''create'' ''myplugin'' demo_world =
     Inr (log_message
       (''Sphinx project already exists for plugin '' @ DQ @ ''myplugin'' @ DQ @ ''.'') demo_world)
   \<and> docs_handler demo_env ''generate'' ''mypkg'' demo_world =
     Inr (log_message
       (''Sphinx project does not exist for custom package '' @ DQ @ ''mypkg'' @ DQ @ ''.'') demo_world)
   \<and> docs_handler demo_env ''build'' ''mypkg'' demo_world =
     Inr (log_message
       (''Sphinx project does not exist for custom package '' @ DQ @ ''mypkg'' @ DQ @ ''.'') demo_world)
   \<and> docs_handler demo_env ''create'' ''source-python'' demo_world =
     Inr (log_message ''Sphinx project already exists for Source.Python'' demo_world)"
proof -
  note p = lifecycle_noop [of "''myplugin''" demo_env demo_world,
      THEN conjunct2, THEN conjunct2, rule_format, THEN conjunct1, rule_format]
  note c = lifecycle_noop [of "''mypkg''" demo_env demo_world,
      THEN conjunct2, THEN conjunct1, rule_format, THEN conjunct2, rule_format]
  note s = lifecycle_noop [of "''source-python''" demo_env demo_world,
      THEN conjunct1, rule_format, THEN conjunct1, rule_format]
  have 1: "\<not> is_source_python ''myplugin'' \<and> is_custom_package demo_env (disk demo_world) ''myplugin'' = Inr False
       \<and> is_plugin demo_env (disk demo_world) ''myplugin'' = Inr True"
    by (simp add: is_source_python_def demo_is_custom demo_is_plugin)
  have 2: "project_exists demo_env (plugin_project demo_env ''myplugin'') (disk demo_world)"
    by (simp add: plugin_project_def demo_env_def demo_world_def demo_disk_def isdir_def joinpath_def)
  have 3: "\<not> is_source_python ''mypkg'' \<and> is_custom_package demo_env (disk demo_world) ''mypkg'' = Inr True"
    by (simp add: is_source_python_def demo_is_custom)
  have 4: "\<not> project_exists demo_env (custom_package_project demo_env ''mypkg'') (disk demo_world)"
    by (simp add: custom_package_project_def demo_env_def demo_world_def demo_disk_def isdir_def joinpath_def)
  have 5: "is_source_python ''source-python''" by (simp add: is_source_python_def)
  have 6: "project_exists demo_env (source_python_project demo_env) (disk demo_world)"
    by (simp add: source_python_project_def demo_env_def demo_world_def demo_disk_def isdir_def)
  from p [OF 1 2] c [OF 3 4] s [OF 5 6] show ?thesis by simp
qed

subsection \<open>A capability that raises\<close>

lemma new_calls_log_message [simp]: "new_calls w (Inr (log_message m w)) = []"
  by (simp add: new_calls_def log_message_def)

lemma new_calls_raise [simp]: "new_calls w (Inl (e, w)) = []"
  by (simp add: new_calls_def)

lemma try_call_reports:
  assumes "(c, True) \<in> set (new_calls w0 (try_call c0 r failure success w))"
    and "calls w = calls w0" and "logged w = logged w0"
  shows "c = c0 \<and> (\<exists>w'. try_call c0 r failure success w = Inr w' \<and> logged w' = logged w0 @ [failure])"
  using assms by (auto simp: try_call_def new_calls_def called_def log_message_def split: if_splits)

lemma sublist_left: "sublist x a \<Longrightarrow> sublist x (a @ b)"
  by (metis sublist_append)

lemma sublist_quoted: "sublist p (a @ DQ @ p @ b)"
  by (metis append_assoc sublist_appendI)

lemma create_source_python_docs_failure:
  assumes "(c, True) \<in> set (new_calls w (create_source_python_docs E w))"
  shows "\<exists>w' m. create_source_python_docs E w = Inr w' \<and> logged w' = logged w @ [m]
           \<and> sublist (verb_word c) m \<and> sublist ''Source.Python'' m"
proof (cases "project_exists E (source_python_project E) (disk w)")
  case True
  with assms show ?thesis by (simp add: create_source_python_docs_def Let_def)
next
  case False
  with assms try_call_reports [of c w _ _ _ _ w]
  have "c = Create (source_python_project E) [''Source.Python Development Team'', ''Source.Python'', VERSION E]"
    and "\<exists>w'. create_source_python_docs E w = Inr w'
           \<and> logged w' = logged w @ [''An occured while creating Sphinx project for Source.Python.'']"
    by (simp_all add: create_source_python_docs_def Let_def)
  moreover have "sublist ''creating'' ''An occured while creating Sphinx project for Source.Python.''"
    and "sublist ''Source.Python'' ''An occured while creating Sphinx project for Source.Python.''"
    by code_simp+
  ultimately show ?thesis by auto
qed

lemma create_custom_package_docs_failure:
  assumes "(c, True) \<in> set (new_calls w (create_custom_package_docs E package w))"
  shows "\<exists>w' m. create_custom_package_docs E package w = Inr w' \<and> logged w' = logged w @ [m]
           \<and> sublist (verb_word c) m \<and> sublist package m"
proof (cases "project_exists E (custom_package_project E package) (disk w)")
  case True
  with assms show ?thesis by (simp add: create_custom_package_docs_def Let_def)
next
  case False
  with assms try_call_reports [of c w _ _ _ _ w]
  have "c = Create (custom_package_project E package) [''Unknown'']"
    and "\<exists>w'. create_custom_package_docs E package w = Inr w'
           \<and> logged w' = logged w @ [''An error occured while creating Sphinx project for custom package '' @ DQ @ package @ DQ @ ''.'']"
    by (simp_all add: create_custom_package_docs_def Let_def)
  moreover have "sublist ''creating'' (''An error occured while creating Sphinx project for custom package '' @ DQ @ package @ DQ @ ''.'')"
    by (rule sublist_left) code_simp
  moreover have "sublist package (''An error occured while creating Sphinx project for custom package '' @ DQ @ package @ DQ @ ''.'')"
    by (rule sublist_quoted)
  ultimately show ?thesis by auto
qed

lemma generate_custom_package_docs_failure:
  assumes "(c, True) \<in> set (new_calls w (generate_custom_package_docs E package w))"
  shows "\<exists>w' m. generate_custom_package_docs E package w = Inr w' \<and> logged w' = logged w @ [m]
           \<and> sublist (verb_word c) m \<and> sublist package m"
proof (cases "project_exists E (custom_package_project E package) (disk w)")
  case False
  with assms show ?thesis by (simp add: generate_custom_package_docs_def Let_def)
next
  case True
  with assms try_call_reports [of c w _ _ _ _ w]
  have "c = Generate (custom_package_project E package)"
    and "\<exists>w'. generate_custom_package_docs E package w = Inr w'
           \<and> logged w' = logged w @ [''An error occured while generating project files for custom package '' @ DQ @ package @ DQ @ ''.'']"
    by (simp_all add: generate_custom_package_docs_def Let_def)
  moreover have "sublist ''generating'' (''An error occured while generating project files for custom package '' @ DQ @ package @ DQ @ ''.'')"
    by (rule sublist_left) code_simp
  moreover have "sublist package (''An error occured while generating project files for custom package '' @ DQ @ package @ DQ @ ''.'')"
    by (rule sublist_quoted)
  ultimately show ?thesis by auto
qed

lemma build_custom_package_docs_failure:
  assumes "(c, True) \<in> set (new_calls w (build_custom_package_docs E package w))"
  shows "\<exists>w' m. build_custom_package_docs E package w = Inr w' \<and> logged w' = logged w @ [m]
           \<and> sublist (verb_word c) m \<and> sublist package m"
proof (cases "project_exists E (custom_package_project E package) (disk w)")
  case False
  with assms show ?thesis by (simp add: build_custom_package_docs_def Let_def)
next
  case True
  with assms try_call_reports [of c w _ _ _ _ w]
  have "c = Build (custom_package_project E package)"
    and "\<exists>w'. build_custom_package_docs E package w = Inr w'
           \<and> logged w' = logged w @ [''An error occured while building project files for custom package '' @ DQ @ package @ DQ @ ''.'']"
    by (simp_all add: build_custom_package_docs_def Let_def)
  moreover have "sublist ''building'' (''An error occured while building project files for custom package '' @ DQ @ package @ DQ @ ''.'')"
    by (rule sublist_left) code_simp
  moreover have "sublist package (''An error occured while building project files for custom package '' @ DQ @ package @ DQ @ ''.'')"
    by (rule sublist_quoted)
  ultimately show ?thesis by auto
qed

lemma create_plugin_docs_failure:
  assumes "(c, True) \<in> set (new_calls w (create_plugin_docs E package w))"
  shows "\<exists>w' m. create_plugin_docs E package w = Inr w' \<and> logged w' = logged w @ [m]
           \<and> sublist (verb_word c) m \<and> sublist package m"
proof (cases "project_exists E (plugin_project E package) (disk w)")
  case True
  with assms show ?thesis by (simp add: create_plugin_docs_def Let_def)
next
  case False
  with assms try_call_reports [of c w _ _ _ _ w]
  have "c = Create (plugin_project E package) [''Unknown'']"
    and "\<exists>w'. create_plugin_docs E package w = Inr w'
           \<and> logged w' = logged w @ [''An error occured while creating Sphinx project for plugin '' @ DQ @ package @ DQ @ ''.'']"
    by (simp_all add: create_plugin_docs_def Let_def)
  moreover have "sublist ''creating'' (''An error occured while creating Sphinx project for plugin '' @ DQ @ package @ DQ @ ''.'')"
    by (rule sublist_left) code_simp
  moreover have "sublist package (''An error occured while creating Sphinx project for plugin '' @ DQ @ package @ DQ @ ''.'')"
    by (rule sublist_quoted)
  ultimately show ?thesis by auto
qed

lemma generate_plugin_docs_failure:
  assumes "(c, True) \<in> set (new_calls w (generate_plugin_docs E package w))"
  shows "\<exists>w' m. generate_plugin_docs E package w = Inr w' \<and> logged w' = logged w @ [m]
           \<and> sublist (verb_word c) m \<and> sublist package m"
proof (cases "project_exists E (plugin_project E package) (disk w)")
  case False
  with assms show ?thesis by (simp add: generate_plugin_docs_def Let_def)
next
  case True
  with assms try_call_reports [of c w _ _ _ _ w]
  have "c = Generate (plugin_project E package)"
    and "\<exists>w'. generate_plugin_docs E package w = Inr w'
           \<and> logged w' = logged w @ [''An error occured while generating project files for plugin '' @ DQ @ package @ DQ @ ''.'']"
    by (simp_all add: generate_plugin_docs_def Let_def)
  moreover have "sublist ''generating'' (''An error occured while generating project files for plugin '' @ DQ @ package @ DQ @ ''.'')"
    by (rule sublist_left) code_simp
  moreover have "sublist package (''An error occured while generating project files for plugin '' @ DQ @ package @ DQ @ ''.'')"
    by (rule sublist_quoted)
  ultimately show ?thesis by auto
qed

lemma build_plugin_docs_failure:
  assumes "(c, True) \<in> set (new_calls w (build_plugin_docs E package w))"
  shows "\<exists>w' m. build_plugin_docs E package w = Inr w' \<and> logged w' = logged w @ [m]
           \<and> sublist (verb_word c) m \<and> sublist package m"
proof (cases "project_exists E (plugin_project E package) (disk w)")
  case False
  with assms show ?thesis by (simp add: build_plugin_docs_def Let_def)
next
  case True
  with assms try_call_reports [of c w _ _ _ _ w]
  have "c = Build (plugin_project E package)"
    and "\<exists>w'. build_plugin_docs E package w = Inr w'
           \<and> logged w' = logged w @ [''An error occured while building project files for plugin '' @ DQ @ package @ DQ @ ''.'']"
    by (simp_all add: build_plugin_docs_def Let_def)
  moreover have "sublist ''building'' (''An error occured while building project files for plugin '' @ DQ @ package @ DQ @ ''.'')"
    by (rule sublist_left) code_simp
  moreover have "sublist package (''An error occured while building project files for plugin '' @ DQ @ package @ DQ @ ''.'')"
    by (rule sublist_quoted)
  ultimately show ?thesis by auto
qed

lemma generate_source_python_docs_failure:
  assumes "(c, True) \<in> set (new_calls w (generate_source_python_docs E w))"
  shows "\<exists>w' m. generate_source_python_docs E w = Inr w' \<and> logged w' = logged w @ [m]
           \<and> sublist (verb_word c) m \<and> sublist ''Source.Python'' m"
proof -
  let ?p = "source_python_project E"
  let ?m = "''An error occured while generating project files for Source.Python''"
  from assms have ex: "project_exists E ?p (disk w)"
    by (auto simp: generate_source_python_docs_def Let_def split: if_splits)
  from assms ex have r: "raised (generate_project_files E ?p (disk w))"
    by (auto simp: generate_source_python_docs_def Let_def new_calls_def called_def
          log_message_def split: if_splits sum.splits prod.splits)
  from assms ex r have "c = Generate ?p"
    by (auto simp: generate_source_python_docs_def Let_def new_calls_def called_def log_message_def)
  moreover from ex r have "\<exists>w'. generate_source_python_docs E w = Inr w' \<and> logged w' = logged w @ [?m]"
    by (simp add: generate_source_python_docs_def Let_def called_def log_message_def)
  moreover have "sublist ''generating'' ?m" and "sublist ''Source.Python'' ?m"
    by code_simp+
  ultimately show ?thesis by auto
qed

lemma build_source_python_docs_failure:
  assumes "(c, True) \<in> set (new_calls w (build_source_python_docs E w))"
  shows "\<exists>w' m. build_source_python_docs E w = Inr w' \<and> logged w' = logged w @ [m]
           \<and> sublist (verb_word c) m \<and> sublist ''Source.Python'' m"
proof -
  let ?p = "source_python_project E"
  let ?m = "''An error occured while building project files for Source.Python.''"
  from assms obtain d where
    b: "build_source_python_docs E w =
          try_call (Build ?p) (project_build E ?p d) ?m
            ''Project files have been built for Source.Python.'' (w\<lparr>disk := d\<rparr>)"
    by (auto simp: build_source_python_docs_def Let_def new_calls_def log_message_def
          split: if_splits sum.splits prod.splits)
  from assms [unfolded b] try_call_reports [of c w _ _ _ _ "w\<lparr>disk := d\<rparr>"]
  have "c = Build ?p"
    and "\<exists>w'. build_source_python_docs E w = Inr w' \<and> logged w' = logged w @ [?m]"
    unfolding b by simp_all
  moreover have "sublist ''building'' ?m" and "sublist ''Source.Python'' ?m"
    by code_simp+
  ultimately show ?thesis by auto
qed

lemma dispatch_failure:
  assumes "r = (if is_source_python package then sp
                else case cu of
                  Inl e \<Rightarrow> Inl (e, w)
                | Inr True \<Rightarrow> cp
                | Inr False \<Rightarrow>
                    (case pl of
                       Inl e \<Rightarrow> Inl (e, w)
                     | Inr True \<Rightarrow> pp
                     | Inr False \<Rightarrow> Inr (log_message m0 w)))"
    and "(c, True) \<in> set (new_calls w r)"
    and "(c, True) \<in> set (new_calls w sp) \<Longrightarrow>
           \<exists>w' m. sp = Inr w' \<and> logged w' = logged w @ [m]
             \<and> sublist (verb_word c) m \<and> sublist ''Source.Python'' m"
    and "(c, True) \<in> set (new_calls w cp) \<Longrightarrow>
           \<exists>w' m. cp = Inr w' \<and> logged w' = logged w @ [m]
             \<and> sublist (verb_word c) m \<and> sublist package m"
    and "(c, True) \<in> set (new_calls w pp) \<Longrightarrow>
           \<exists>w' m. pp = Inr w' \<and> logged w' = logged w @ [m]
             \<and> sublist (verb_word c) m \<and> sublist package m"
  shows "\<exists>w' m. r = Inr w' \<and> logged w' = logged w @ [m]
           \<and> sublist (verb_word c) m \<and> sublist (report_name package) m"
proof (cases "is_source_python package")
  case True
  with assms(1,2,3) show ?thesis
    by (simp add: report_name_def is_source_python_def)
next
  case False
  then have n: "report_name package = package"
    by (simp add: report_name_def is_source_python_def)
  show ?thesis
  proof (cases cu)
    case (Inl e)
    with False assms(1,2) show ?thesis by simp
  next
    case (Inr b)
    show ?thesis
    proof (cases b)
      case True
      with False Inr assms(1,2,4) show ?thesis by (simp add: n)
    next
      case nb: False
      show ?thesis
      proof (cases pl)
        case (Inl e)
        with False Inr nb assms(1,2) show ?thesis by simp
      next
        case pr: (Inr b')
        with False Inr nb assms(1,2,5) show ?thesis by (cases b') (simp_all add: n)
      qed
    qed
  qed
qed

lemma create_sphinx_project_failure:
  assumes "(c, True) \<in> set (new_calls w (create_sphinx_project E package w))"
  shows "\<exists>w' m. create_sphinx_project E package w = Inr w' \<and> logged w' = logged w @ [m]
           \<and> sublist (verb_word c) m \<and> sublist (report_name package) m"
  by (rule dispatch_failure [OF create_sphinx_project_def assms
        create_source_python_docs_failure create_custom_package_docs_failure
        create_plugin_docs_failure])

lemma generate_sphinx_project_failure:
  assumes "(c, True) \<in> set (new_calls w (generate_sphinx_project E package w))"
  shows "\<exists>w' m. generate_sphinx_project E package w = Inr w' \<and> logged w' = logged w @ [m]
           \<and> sublist (verb_word c) m \<and> sublist (report_name package) m"
  by (rule dispatch_failure [OF generate_sphinx_project_def assms
        generate_source_python_docs_failure generate_custom_package_docs_failure
        generate_plugin_docs_failure])

lemma build_sphinx_project_failure:
  assumes "(c, True) \<in> set (new_calls w (build_sphinx_project E package w))"
  shows "\<exists>w' m. build_sphinx_project E package w = Inr w' \<and> logged w' = logged w @ [m]
           \<and> sublist (verb_word c) m \<and> sublist (report_name package) m"
  by (rule dispatch_failure [OF build_sphinx_project_def assms
        build_source_python_docs_failure build_custom_package_docs_failure
        build_plugin_docs_failure])

text \<open>
  C1: whenever a call that docs_handler makes to the project capability (create,
  generate_project_files or build) raises, the handler itself returns: the exception
  does not leave it. During that run exactly one message is logged, and it contains
  the word for the verb that failed (creating, generating, building) and the name of
  the package (Source.Python for source-python).
\<close>

theorem capability_failure_reported:
  assumes "(c, True) \<in> set (new_calls w (docs_handler E action package w))"
  shows "\<exists>w' m. docs_handler E action package w = Inr w' \<and> logged w' = logged w @ [m]
           \<and> sublist (verb_word c) m \<and> sublist (report_name package) m"
proof -
  consider "action = ''create''" | "action = ''generate''" | "action = ''build''"
    | "action \<notin> {''create'', ''generate'', ''build''}"
    by auto
  then show ?thesis
  proof cases
    case 1
    with assms create_sphinx_project_failure [of c w E package] show ?thesis
      by (simp add: docs_handler_def)
  next
    case 2
    with assms generate_sphinx_project_failure [of c w E package] show ?thesis
      by (simp add: docs_handler_def)
  next
    case 3
    with assms build_sphinx_project_failure [of c w E package] show ?thesis
      by (simp add: docs_handler_def)
  next
    case 4
    with assms show ?thesis by (simp add: docs_handler_def)
  qed
qed

lemma failing_build_myplugin:
  "docs_handler failing_env ''build'' ''myplugin'' demo_world =
     Inr (log_message
       (''An error occured while building project files for plugin '' @ DQ @ ''myplugin'' @ DQ @ ''.'')
       (demo_world\<lparr>calls := [(Build (plugin_project failing_env ''myplugin''), True)]\<rparr>))"
proof -
  have 1: "is_custom_package failing_env (disk demo_world) ''myplugin'' = Inr False"
    using demo_is_custom(2) by (simp add: is_custom_package_def failing_env_paths)
  have 2: "is_plugin failing_env (disk demo_world) ''myplugin'' = Inr True"
    using demo_is_plugin by (simp add: is_plugin_def failing_env_paths)
  have 3: "build_plugin_docs failing_env ''myplugin'' demo_world =
     Inr (log_message
       (''An error occured while building project files for plugin '' @ DQ @ ''myplugin'' @ DQ @ ''.'')
       (demo_world\<lparr>calls := [(Build (plugin_project failing_env ''myplugin''), True)]\<rparr>))"
    by (simp add: build_plugin_docs_def plugin_project_def try_call_def called_def
          failing_env_def demo_env_def demo_world_def demo_disk_def isdir_def joinpath_def)
  show ?thesis
    by (simp add: docs_handler_def build_sphinx_project_def is_source_python_def 1 2 3)
qed

theorem capability_failure_reported_witness:
  "(Build (plugin_project failing_env ''myplugin''), True)
     \<in> set (new_calls demo_world (docs_handler failing_env ''build'' ''myplugin'' demo_world))
   \<and> (\<exists>w' m. docs_handler failing_env ''build'' ''myplugin'' demo_world = Inr w'
          \<and> logged w' = logged demo_world @ [m]
          \<and> sublist ''building'' m \<and> sublist ''myplugin'' m)
   \<and> logged (final_world (docs_handler failing_env ''build'' ''myplugin'' demo_world)) =
       [''An error occured while building project files for plugin '' @ DQ @ ''myplugin'' @ DQ @ ''.'']"
proof -
  have c0: "calls demo_world = []" and l0: "logged demo_world = []"
    by (simp_all add: demo_world_def)
  have h: "(Build (plugin_project failing_env ''myplugin''), True)
     \<in> set (new_calls demo_world (docs_handler failing_env ''build'' ''myplugin'' demo_world))"
    by (simp add: failing_build_myplugin new_calls_def log_message_def c0)
  have l: "logged (final_world (docs_handler failing_env ''build'' ''myplugin'' demo_world)) =
       [''An error occured while building project files for plugin '' @ DQ @ ''myplugin'' @ DQ @ ''.'']"
    by (simp add: failing_build_myplugin log_message_def l0)
  from capability_failure_reported [OF h] have
    "\<exists>w' m. docs_handler failing_env ''build'' ''myplugin'' demo_world = Inr w'
          \<and> logged w' = logged demo_world @ [m]
          \<and> sublist ''building'' m \<and> sublist ''myplugin'' m"
    by (simp add: report_name_def)
  with h l show ?thesis by blast
qed

subsection \<open>Text mode\<close>

lemma text_read_other: "c \<noteq> CHR 0x0D \<Longrightarrow> text_read (c # s) = c # text_read s"
  by (cases s) simp_all

lemma text_read_unchanged: "CHR 0x0D \<notin> set bytes \<Longrightarrow> text_read bytes = bytes"
  by (induction bytes) (auto simp: text_read_other)

lemma text_read_no_return: "CHR 0x0D \<notin> set (text_read bytes)"
  by (induction bytes rule: text_read.induct) simp_all

lemma text_write_newline: "text_write NL s = s"
  by (induction s) (simp_all add: text_write_def)

lemma text_write_Cons:
  "text_write eol (c # s) = (if c = CHR 0x0A then eol else [c]) @ text_write eol s"
  by (simp add: text_write_def)

lemma text_read_write:
  assumes "CHR 0x0D \<notin> set s" and "eol = NL \<or> eol = CR @ NL"
  shows "text_read (text_write eol s) = s"
  using assms(1)
proof (induction s)
  case Nil
  show ?case by (simp add: text_write_def)
next
  case (Cons c s)
  then have ih: "text_read (text_write eol s) = s" and c: "c \<noteq> CHR 0x0D" by auto
  show ?case
  proof (cases "c = CHR 0x0A")
    case True
    from assms(2) show ?thesis
    proof
      assume "eol = NL"
      with True ih show ?thesis by (simp add: text_write_Cons text_read_other)
    next
      assume "eol = CR @ NL"
      with True ih show ?thesis by (simp add: text_write_Cons)
    qed
  next
    case False
    with c ih show ?thesis by (simp add: text_write_Cons text_read_other)
  qed
qed

lemma replace_scan_removes: "set (replace_scan old [] s) \<subseteq> set s"
proof (induction old "[] :: string" s rule: replace_scan.induct)
  case (1 old)
  show ?case by simp
next
  case (2 old c cs)
  show ?case
  proof (cases "old \<noteq> [] \<and> prefix old (c # cs)")
    case True
    with "2.hyps"(1) have "set (replace_scan old [] (drop (length old) (c # cs)))
        \<subseteq> set (drop (length old) (c # cs))" by simp
    also have "\<dots> \<subseteq> set (c # cs)" by (rule set_drop_subset)
    finally show ?thesis using True by simp
  next
    case False
    with "2.hyps"(2) show ?thesis by auto
  qed
qed

lemma replace_no_return:
  "old \<noteq> [] \<Longrightarrow> CHR 0x0D \<notin> set (replace (text_read bytes) old [])"
  using replace_scan_removes [of old "text_read bytes"] text_read_no_return [of bytes]
  by (auto simp: replace_def)

lemma write_over_file:
  "map_of d p = Some (File bytes) \<Longrightarrow>
   read_file p d = Inr (text_read bytes)
   \<and> write_file eol p new d = Inr (AList.update p (File (text_write eol new)) d)"
  by (simp add: read_file_def write_file_def isdir_def)
subsection \<open>Building the Source.Python project\<close>

lemma lines_from_concat: "concat (lines_from cur s) = cur @ s"
  by (induction s arbitrary: cur) auto

lemma readlines_concat: "concat (readlines s) = s"
  by (simp add: readlines_def lines_from_concat)

lemma split_first_word:
  assumes "prefix ''version'' line \<or> prefix ''release'' line"
  shows "split_first line = Some (takeWhile (\<lambda>c. \<not> isspace c) line)"
proof -
  from assms obtain rest where "line = CHR ''v'' # rest \<or> line = CHR ''r'' # rest"
    by (auto simp: prefix_def)
  then show ?thesis
    by (auto simp: split_first_def isspace_def)
qed

lemma write_conf_lines_eq:
  "write_conf_lines version lines out = Inr (out @ concat (map (conf_line_spec version) lines))"
proof (induction lines arbitrary: out)
  case Nil
  then show ?case by simp
next
  case (Cons line lines)
  show ?case
  proof (cases "prefix ''version'' line \<or> prefix ''release'' line")
    case True
    then show ?thesis
      using split_first_word [OF True]
      by (simp add: Cons.IH conf_line_spec_def startswith_def)
  next
    case False
    then show ?thesis
      by (simp add: Cons.IH conf_line_spec_def startswith_def)
  qed
qed

lemma build_conf_step:
  assumes "project_exists E (source_python_project E) (disk w)"
    and "map_of (disk w) (joinpath (project_source_dir E (source_python_project E)) ''conf.py'')
           = Some (File bytes)"
  shows "build_source_python_docs E w =
           try_call (Build (source_python_project E))
             (project_build E (source_python_project E)
                (AList.update (joinpath (project_source_dir E (source_python_project E)) ''conf.py'')
                   (File (conf_rewritten E bytes)) (disk w)))
             ''An error occured while building project files for Source.Python.''
             ''Project files have been built for Source.Python.''
             (w\<lparr>disk := AList.update
                  (joinpath (project_source_dir E (source_python_project E)) ''conf.py'')
                  (File (conf_rewritten E bytes)) (disk w)\<rparr>)"
  using assms(1) write_over_file [OF assms(2)]
  by (simp add: build_source_python_docs_def Let_def write_conf_lines_eq conf_rewritten_def)

lemma demo_conf_path:
  "joinpath (project_source_dir demo_env (source_python_project demo_env)) ''conf.py''
     = [''docs'', ''source-python'', ''source'', ''conf.py'']"
  "joinpath (project_source_dir failing_env (source_python_project failing_env)) ''conf.py''
     = [''docs'', ''source-python'', ''source'', ''conf.py'']"
  by (simp_all add: source_python_project_def failing_env_def demo_env_def joinpath_def)

lemma crlf_conf_rewritten:
  "conf_rewritten demo_env (''project = 1'' @ CR @ NL @ ''version = 0'' @ CR @ NL)
     = ''project = 1'' @ NL @ ''version = '' @ SQ @ '' 42'' @ SQ @ NL"
  by (simp add: conf_rewritten_def demo_env_def readlines_def conf_line_spec_def isspace_def
        text_write_def)

text \<open>
  C6, as stated, fails: the lines of conf.py that start with neither word are not
  written back byte for byte. The file is read and written in text mode. With a
  conf.py whose lines end in carriage return and newline, on a system whose line
  separator is a newline, the line \<^verbatim>\<open>project = 1\<close> starts with neither word and
  comes back without its carriage return.
\<close>

theorem build_conf_bytes_counterexample:
  "map_of (disk crlf_world) [''docs'', ''source-python'', ''source'', ''conf.py'']
     = Some (File (''project = 1'' @ CR @ NL @ ''version = 0'' @ CR @ NL))
   \<and> \<not> prefix ''version'' (''project = 1'' @ CR @ NL)
   \<and> \<not> prefix ''release'' (''project = 1'' @ CR @ NL)
   \<and> map_of (disk (final_world (build_source_python_docs demo_env crlf_world)))
       [''docs'', ''source-python'', ''source'', ''conf.py'']
     = Some (File (''project = 1'' @ NL @ ''version = '' @ SQ @ '' 42'' @ SQ @ NL))"
proof -
  have e: "project_exists demo_env (source_python_project demo_env) (disk crlf_world)"
    by (simp add: source_python_project_def demo_env_def crlf_world_def demo_disk_def
          isdir_def update_conv')
  have m: "map_of (disk crlf_world)
             (joinpath (project_source_dir demo_env (source_python_project demo_env)) ''conf.py'')
           = Some (File (''project = 1'' @ CR @ NL @ ''version = 0'' @ CR @ NL))"
    unfolding demo_conf_path by (simp add: crlf_world_def update_conv')
  have b: "project_build demo_env = (\<lambda>p d. Returned d)"
    by (simp add: demo_env_def)
  show ?thesis
    unfolding build_conf_step [OF e m] crlf_conf_rewritten demo_conf_path b
    using m [unfolded demo_conf_path]
    by (simp add: try_call_def called_def log_message_def update_conv')
qed

text \<open>
  C6, amended: when the project of Source.Python exists and conf.py is a file, build
  first writes conf.py back and only then calls the build capability, on the disk that
  holds the rewritten file; no other path changes. The file is read in text mode and
  cut into lines (put together, the lines are the text that was read). A line that
  starts with version or release becomes its first word, then \<^verbatim>\<open> = ' \<close>, the version
  and \<^verbatim>\<open>'\<close> with a newline; every other line keeps its text. The lines are written in
  text mode, so every line ends as \<^verbatim>\<open>os.linesep\<close> says: the other lines are byte for
  byte what they were when the file has no carriage return and the line separator is
  a newline. Whether the build call returns or raises, the disk the handler leaves is
  the one that call left: the handler undoes nothing, and only the message differs.
\<close>

theorem build_rewrites_conf:
  assumes "project_exists E (source_python_project E) (disk w)"
    and "map_of (disk w) (joinpath (project_source_dir E (source_python_project E)) ''conf.py'')
           = Some (File bytes)"
  shows "build_source_python_docs E w =
           Inr (log_message
             (if raised (project_build E (source_python_project E)
                   (AList.update (joinpath (project_source_dir E (source_python_project E)) ''conf.py'')
                      (File (conf_rewritten E bytes)) (disk w)))
              then ''An error occured while building project files for Source.Python.''
              else ''Project files have been built for Source.Python.'')
             (w\<lparr>disk := disk_of (project_build E (source_python_project E)
                   (AList.update (joinpath (project_source_dir E (source_python_project E)) ''conf.py'')
                      (File (conf_rewritten E bytes)) (disk w))),
               calls := calls w @
                 [(Build (source_python_project E),
                   raised (project_build E (source_python_project E)
                     (AList.update (joinpath (project_source_dir E (source_python_project E)) ''conf.py'')
                        (File (conf_rewritten E bytes)) (disk w))))]\<rparr>))
         \<and> map_of (AList.update (joinpath (project_source_dir E (source_python_project E)) ''conf.py'')
                (File (conf_rewritten E bytes)) (disk w))
             = (map_of (disk w))
                 (joinpath (project_source_dir E (source_python_project E)) ''conf.py''
                    \<mapsto> File (conf_rewritten E bytes))
         \<and> conf_rewritten E bytes =
             text_write (linesep E)
               (concat (map (conf_line_spec (VERSION E)) (readlines (text_read bytes))))
         \<and> concat (readlines (text_read bytes)) = text_read bytes
         \<and> (\<forall>line. conf_line_spec (VERSION E) line =
               (if prefix ''version'' line \<or> prefix ''release'' line
                then takeWhile (\<lambda>c. \<not> isspace c) line @ '' = '' @ SQ @ '' '' @ VERSION E @ SQ @ NL
                else line))
         \<and> (linesep E = NL \<and> CHR 0x0D \<notin> set bytes \<longrightarrow>
               conf_rewritten E bytes =
                 concat (map (conf_line_spec (VERSION E)) (readlines bytes))
               \<and> concat (readlines bytes) = bytes)"
proof (intro conjI allI impI)
  show "build_source_python_docs E w =
           Inr (log_message
             (if raised (project_build E (source_python_project E)
                   (AList.update (joinpath (project_source_dir E (source_python_project E)) ''conf.py'')
                      (File (conf_rewritten E bytes)) (disk w)))
              then ''An error occured while building project files for Source.Python.''
              else ''Project files have been built for Source.Python.'')
             (w\<lparr>disk := disk_of (project_build E (source_python_project E)
                   (AList.update (joinpath (project_source_dir E (source_python_project E)) ''conf.py'')
                      (File (conf_rewritten E bytes)) (disk w))),
               calls := calls w @
                 [(Build (source_python_project E),
                   raised (project_build E (source_python_project E)
                     (AList.update (joinpath (project_source_dir E (source_python_project E)) ''conf.py'')
                        (File (conf_rewritten E bytes)) (disk w))))]\<rparr>))"
    unfolding build_conf_step [OF assms]
    by (simp add: try_call_def called_def)
next
  show "map_of (AList.update (joinpath (project_source_dir E (source_python_project E)) ''conf.py'')
                (File (conf_rewritten E bytes)) (disk w))
             = (map_of (disk w))
                 (joinpath (project_source_dir E (source_python_project E)) ''conf.py''
                    \<mapsto> File (conf_rewritten E bytes))"
    by (rule update_conv')
next
  show "conf_rewritten E bytes =
             text_write (linesep E)
               (concat (map (conf_line_spec (VERSION E)) (readlines (text_read bytes))))"
    by (rule conf_rewritten_def)
next
  show "concat (readlines (text_read bytes)) = text_read bytes"
    by (rule readlines_concat)
next
  fix line
  show "conf_line_spec (VERSION E) line =
               (if prefix ''version'' line \<or> prefix ''release'' line
                then takeWhile (\<lambda>c. \<not> isspace c) line @ '' = '' @ SQ @ '' '' @ VERSION E @ SQ @ NL
                else line)"
    by (rule conf_line_spec_def)
next
  assume "linesep E = NL \<and> CHR 0x0D \<notin> set bytes"
  then show "conf_rewritten E bytes =
                 concat (map (conf_line_spec (VERSION E)) (readlines bytes))"
    by (simp add: conf_rewritten_def text_write_newline text_read_unchanged)
next
  show "concat (readlines bytes) = bytes"
    by (rule readlines_concat)
qed

lemma demo_conf_rewritten:
  "conf_rewritten failing_env (''project = 1'' @ NL @ ''version = 0'' @ NL @ ''release=0'')
     = ''project = 1'' @ NL @ ''version = '' @ SQ @ '' 42'' @ SQ @ NL @
       ''release=0 = '' @ SQ @ '' 42'' @ SQ @ NL"
  by (simp add: conf_rewritten_def failing_env_def demo_env_def readlines_def conf_line_spec_def
        isspace_def text_write_def)

theorem build_rewrites_conf_witness:
  "map_of (disk (final_world (build_source_python_docs failing_env demo_world)))
       [''docs'', ''source-python'', ''source'', ''conf.py'']
     = Some (File (''project = 1'' @ NL @ ''version = '' @ SQ @ '' 42'' @ SQ @ NL @
                   ''release=0 = '' @ SQ @ '' 42'' @ SQ @ NL))
   \<and> logged (final_world (build_source_python_docs failing_env demo_world))
     = [''An error occured while building project files for Source.Python.'']
   \<and> calls (final_world (build_source_python_docs failing_env demo_world))
     = [(Build (source_python_project failing_env), True)]"
proof -
  have e: "project_exists failing_env (source_python_project failing_env) (disk demo_world)"
    by (simp add: source_python_project_def failing_env_def demo_env_def demo_world_def
          demo_disk_def isdir_def)
  have m: "map_of (disk demo_world)
             (joinpath (project_source_dir failing_env (source_python_project failing_env)) ''conf.py'')
           = Some (File (''project = 1'' @ NL @ ''version = 0'' @ NL @ ''release=0''))"
    unfolding demo_conf_path by (simp add: demo_world_def demo_disk_def)
  have b: "project_build failing_env = (\<lambda>p d. Raised d)"
    by (simp add: failing_env_def)
  note t = build_rewrites_conf [OF e m, THEN conjunct1, unfolded demo_conf_rewritten demo_conf_path b]
  show ?thesis
    unfolding t
    by (simp add: log_message_def update_conv' demo_world_def)
qed
subsection \<open>Generating the Source.Python project\<close>

lemma fnmatch_literal_rst: "fnmatch_pat ''.rst'' s = (s = ''.rst'')"
proof (cases s)
  case Nil
  then show ?thesis by simp
next
  case (Cons a s1)
  then show ?thesis
  proof (cases s1)
    case Nil
    with Cons show ?thesis by simp
  next
    case (Cons b s2)
    note c2 = this
    show ?thesis
    proof (cases s2)
      case Nil
      with c2 \<open>s = a # s1\<close> show ?thesis by simp
    next
      case (Cons c s3)
      note c3 = this
      show ?thesis
      proof (cases s3)
        case Nil
        with c2 c3 \<open>s = a # s1\<close> show ?thesis by simp
      next
        case (Cons d s4)
        with c2 c3 \<open>s = a # s1\<close> show ?thesis by (cases s4) auto
      qed
    qed
  qed
qed

lemma fnmatch_rst: "fnmatch name ''*.rst'' = suffix ''.rst'' name"
proof (induction name)
  case Nil
  show ?case by (simp add: fnmatch_def)
next
  case (Cons c cs)
  have "fnmatch (c # cs) ''*.rst'' = (fnmatch_pat ''.rst'' (c # cs) \<or> fnmatch cs ''*.rst'')"
    by (simp add: fnmatch_def)
  also have "\<dots> = (c # cs = ''.rst'' \<or> suffix ''.rst'' cs)"
    by (simp only: fnmatch_literal_rst Cons.IH)
  also have "\<dots> = suffix ''.rst'' (c # cs)"
    by (simp only: suffix_Cons) auto
  finally show ?case .
qed

lemma rewrite_rst_result:
  assumes "distinct fs" and "\<forall>f \<in> set fs. isfile f d"
  shows "\<exists>d'. rewrite_rst eol fs d = Inr d'
           \<and> (\<forall>p. map_of d' p = (if p \<in> set fs then map_option (strip_node eol) (map_of d p)
                                 else map_of d p))"
  using assms
proof (induction fs arbitrary: d)
  case Nil
  then show ?case by simp
next
  case (Cons f fs)
  from Cons.prems obtain t where t: "map_of d f = Some (File t)"
    by (auto simp: isfile_def split: option.splits node.splits)
  let ?new = "File (text_write eol (replace (text_read t) ''source-python.'' []))"
  let ?d1 = "AList.update f ?new d"
  have m1: "map_of ?d1 = (map_of d)(f \<mapsto> ?new)"
    by (rule update_conv')
  from Cons.prems have "\<forall>g \<in> set fs. isfile g ?d1"
    by (auto simp: isfile_def m1)
  with Cons.prems Cons.IH [of ?d1] obtain d' where
    d': "rewrite_rst eol fs ?d1 = Inr d'"
      "\<forall>p. map_of d' p = (if p \<in> set fs then map_option (strip_node eol) (map_of ?d1 p)
                                 else map_of ?d1 p)"
    by auto
  have step: "rewrite_rst eol (f # fs) d = rewrite_rst eol fs ?d1"
    using t by (simp add: read_file_def write_file_def isdir_def)
  show ?case
    unfolding step using d' Cons.prems(1) t
    by (auto simp: m1 strip_node_def)
qed

lemma files_rst:
  assumes "isdir src d"
  shows "\<exists>fs. files src ''*.rst'' d = Inr fs \<and> distinct fs
           \<and> (\<forall>p. p \<in> set fs \<longleftrightarrow>
                 p \<noteq> [] \<and> butlast p = src \<and> suffix ''.rst'' (last p) \<and> isfile p d)"
proof -
  have "isfile p d \<Longrightarrow> p \<in> fst ` set d" for p
    by (auto simp: isfile_def split: option.splits dest!: map_of_SomeD intro: rev_image_eqI)
  with assms show ?thesis
    by (auto simp: files_def listdir_def fnmatch_rst)
qed

lemma replace_scan_first:
  assumes "old \<noteq> []" and "\<not> sublist old (a @ butlast old)"
  shows "replace_scan old new (a @ old @ b) = a @ new @ replace_scan old new b"
  using assms(2)
proof (induction a)
  case Nil
  from assms(1) obtain x xs where o: "old = x # xs" by (cases old) auto
  have "replace_scan old new (old @ b) = new @ replace_scan old new (drop (length old) (old @ b))"
    unfolding o by simp
  then show ?case by simp
next
  case (Cons c a)
  let ?u = "(c # a) @ butlast old"
  have split: "(c # a) @ old @ b = ?u @ ([last old] @ b)"
    using assms(1) by simp
  have np: "\<not> prefix old ((c # a) @ old @ b)"
  proof
    assume "prefix old ((c # a) @ old @ b)"
    then have "prefix old (?u @ ([last old] @ b))" by (simp only: split)
    then consider "prefix old ?u" | us where "old = ?u @ us"
      by (auto simp only: prefix_append)
    then have "prefix old ?u"
    proof cases
      case 1
      then show ?thesis .
    next
      case 2
      then have "length old = length ?u + length us" by (metis length_append)
      moreover have "0 < length old" using assms(1) by simp
      ultimately have "us = []" by simp
      with 2 show ?thesis by simp
    qed
    then have "sublist old ?u" by (rule prefix_imp_sublist)
    with Cons.prems show False by simp
  qed
  from Cons.prems have "\<not> sublist old (a @ butlast old)"
    by (simp add: sublist_Cons_right)
  from Cons.IH [OF this] np show ?case by simp
qed

text \<open>
  C5: when the project of Source.Python exists, generate_project_files returns and the
  source directory of the project can be listed, generate rewrites every file of that
  directory whose name ends in .rst: the file then holds, written in text mode, what
  \<^verbatim>\<open>replace('source-python.', '')\<close> makes of the text read from its generated content,
  and read again it gives exactly that text. Nothing else on the disk changes, and
  the confirmation is logged. That replacement leaves a text without source-python.
  as it is, and removes the leftmost occurrence and goes on behind it. For a custom
  package and for a plugin the disk is left exactly as generate_project_files left it.
\<close>

theorem generate_strips_rst:
  "(project_exists E (source_python_project E) (disk w)
    \<and> generate_project_files E (source_python_project E) (disk w) = Returned d1
    \<and> isdir (project_source_dir E (source_python_project E)) d1 \<longrightarrow>
      (\<exists>d2. generate_source_python_docs E w =
               Inr (log_message ''Project files have been generated for Source.Python.''
                     (w\<lparr>calls := calls w @ [(Generate (source_python_project E), False)],
                        disk := d2\<rparr>))
         \<and> (\<forall>name bytes.
               suffix ''.rst'' name
               \<and> map_of d1 (joinpath (project_source_dir E (source_python_project E)) name)
                   = Some (File bytes) \<longrightarrow>
               map_of d2 (joinpath (project_source_dir E (source_python_project E)) name)
                 = Some (File (text_write (linesep E)
                     (replace (text_read bytes) ''source-python.'' [])))
               \<and> read_file (joinpath (project_source_dir E (source_python_project E)) name) d1
                 = Inr (text_read bytes)
               \<and> (linesep E = NL \<or> linesep E = CR @ NL \<longrightarrow>
                    read_file (joinpath (project_source_dir E (source_python_project E)) name) d2
                      = Inr (replace (text_read bytes) ''source-python.'' [])))
         \<and> (\<forall>p. \<not> (p \<noteq> [] \<and> butlast p = project_source_dir E (source_python_project E)
                    \<and> suffix ''.rst'' (last p) \<and> isfile p d1) \<longrightarrow>
               map_of d2 p = map_of d1 p)))
   \<and> (project_exists E (custom_package_project E package) (disk w)
      \<and> generate_project_files E (custom_package_project E package) (disk w) = Returned d1 \<longrightarrow>
      generate_custom_package_docs E package w =
        Inr (log_message
              (''Project files have been generated for custom package '' @ DQ @ package @ DQ @ ''.'')
              (w\<lparr>disk := d1,
                 calls := calls w @ [(Generate (custom_package_project E package), False)]\<rparr>)))
   \<and> (project_exists E (plugin_project E package) (disk w)
      \<and> generate_project_files E (plugin_project E package) (disk w) = Returned d1 \<longrightarrow>
      generate_plugin_docs E package w =
        Inr (log_message
              (''Project files have been generated for plugin '' @ DQ @ package @ DQ @ ''.'')
              (w\<lparr>disk := d1,
                 calls := calls w @ [(Generate (plugin_project E package), False)]\<rparr>)))
   \<and> (\<forall>text. \<not> sublist ''source-python.'' text \<longrightarrow> replace text ''source-python.'' [] = text)
   \<and> (\<forall>a b. \<not> sublist ''source-python.'' (a @ ''source-python'') \<longrightarrow>
         replace (a @ ''source-python.'' @ b) ''source-python.'' []
           = a @ replace b ''source-python.'' [])"
proof (intro conjI allI impI)
  let ?sp = "source_python_project E"
  let ?src = "project_source_dir E ?sp"
  assume a: "project_exists E ?sp (disk w)
    \<and> generate_project_files E ?sp (disk w) = Returned d1 \<and> isdir ?src d1"
  from files_rst [of ?src d1] a obtain fs where
    fs: "files ?src ''*.rst'' d1 = Inr fs" "distinct fs"
      "\<forall>p. p \<in> set fs \<longleftrightarrow> p \<noteq> [] \<and> butlast p = ?src \<and> suffix ''.rst'' (last p) \<and> isfile p d1"
    by auto
  from rewrite_rst_result [of fs d1 "linesep E"] fs obtain d2 where
    d2: "rewrite_rst (linesep E) fs d1 = Inr d2"
      "\<forall>p. map_of d2 p =
         (if p \<in> set fs then map_option (strip_node (linesep E)) (map_of d1 p) else map_of d1 p)"
    by auto
  have 1: "generate_source_python_docs E w =
             Inr (log_message ''Project files have been generated for Source.Python.''
                   (w\<lparr>calls := calls w @ [(Generate ?sp, False)], disk := d2\<rparr>))"
    using a fs(1) d2(1)
    by (simp add: generate_source_python_docs_def Let_def called_def)
  have 2: "map_of d2 (joinpath ?src name)
             = Some (File (text_write (linesep E) (replace (text_read bytes) ''source-python.'' [])))
           \<and> read_file (joinpath ?src name) d1 = Inr (text_read bytes)
           \<and> (linesep E = NL \<or> linesep E = CR @ NL \<longrightarrow>
                read_file (joinpath ?src name) d2
                  = Inr (replace (text_read bytes) ''source-python.'' []))"
    if "suffix ''.rst'' name \<and> map_of d1 (joinpath ?src name) = Some (File bytes)" for name bytes
  proof -
    from that have "joinpath ?src name \<in> set fs"
      by (simp add: fs(3) joinpath_def isfile_def)
    with d2(2) that have
      w: "map_of d2 (joinpath ?src name)
            = Some (File (text_write (linesep E) (replace (text_read bytes) ''source-python.'' [])))"
      by (simp add: strip_node_def)
    have "text_read (text_write (linesep E) (replace (text_read bytes) ''source-python.'' []))
            = replace (text_read bytes) ''source-python.'' []"
      if "linesep E = NL \<or> linesep E = CR @ NL"
      by (rule text_read_write [OF replace_no_return that]) simp
    with w that show ?thesis by (simp add: read_file_def)
  qed
  have 3: "map_of d2 p = map_of d1 p"
    if "\<not> (p \<noteq> [] \<and> butlast p = ?src \<and> suffix ''.rst'' (last p) \<and> isfile p d1)" for p
  proof -
    from that fs(3) have "p \<notin> set fs" by blast
    with d2(2) show ?thesis by simp
  qed
  from 1 2 3 show "\<exists>d2. generate_source_python_docs E w =
               Inr (log_message ''Project files have been generated for Source.Python.''
                     (w\<lparr>calls := calls w @ [(Generate ?sp, False)], disk := d2\<rparr>))
         \<and> (\<forall>name bytes.
               suffix ''.rst'' name \<and> map_of d1 (joinpath ?src name) = Some (File bytes) \<longrightarrow>
               map_of d2 (joinpath ?src name)
                 = Some (File (text_write (linesep E)
                     (replace (text_read bytes) ''source-python.'' [])))
               \<and> read_file (joinpath ?src name) d1 = Inr (text_read bytes)
               \<and> (linesep E = NL \<or> linesep E = CR @ NL \<longrightarrow>
                    read_file (joinpath ?src name) d2
                      = Inr (replace (text_read bytes) ''source-python.'' [])))
         \<and> (\<forall>p. \<not> (p \<noteq> [] \<and> butlast p = ?src \<and> suffix ''.rst'' (last p) \<and> isfile p d1) \<longrightarrow>
               map_of d2 p = map_of d1 p)"
    by blast
next
  assume "project_exists E (custom_package_project E package) (disk w)
      \<and> generate_project_files E (custom_package_project E package) (disk w) = Returned d1"
  then show "generate_custom_package_docs E package w =
        Inr (log_message
              (''Project files have been generated for custom package '' @ DQ @ package @ DQ @ ''.'')
              (w\<lparr>disk := d1,
                 calls := calls w @ [(Generate (custom_package_project E package), False)]\<rparr>))"
    by (simp add: generate_custom_package_docs_def Let_def try_call_def called_def)
next
  assume "project_exists E (plugin_project E package) (disk w)
      \<and> generate_project_files E (plugin_project E package) (disk w) = Returned d1"
  then show "generate_plugin_docs E package w =
        Inr (log_message
              (''Project files have been generated for plugin '' @ DQ @ package @ DQ @ ''.'')
              (w\<lparr>disk := d1,
                 calls := calls w @ [(Generate (plugin_project E package), False)]\<rparr>))"
    by (simp add: generate_plugin_docs_def Let_def try_call_def called_def)
next
  fix "text" :: string assume "\<not> sublist ''source-python.'' text"
  then show "replace text ''source-python.'' [] = text"
    by (simp add: replace_def replace_scan_absent)
next
  fix a b :: string assume "\<not> sublist ''source-python.'' (a @ ''source-python'')"
  then have "\<not> sublist ''source-python.'' (a @ butlast ''source-python.'')" by simp
  from replace_scan_first [OF _ this, of "[]" b]
  show "replace (a @ ''source-python.'' @ b) ''source-python.'' [] = a @ replace b ''source-python.'' []"
    by (simp add: replace_def)
qed

theorem generate_strips_rst_witness:
  "read_file [''docs'', ''source-python'', ''source'', ''core.rst'']
       (disk (final_world (generate_source_python_docs demo_env demo_world)))
     = Inr ''core.command''
   \<and> read_file [''docs'', ''source-python'', ''source'', ''conf.py'']
       (disk (final_world (generate_source_python_docs demo_env demo_world)))
     = Inr (''project = 1'' @ NL @ ''version = 0'' @ NL @ ''release=0'')
   \<and> logged (final_world (generate_source_python_docs demo_env demo_world))
     = [''Project files have been generated for Source.Python.'']"
proof -
  let ?sp = "source_python_project demo_env"
  have src: "project_source_dir demo_env ?sp = [''docs'', ''source-python'', ''source'']"
    by (simp add: source_python_project_def demo_env_def joinpath_def)
  have h: "project_exists demo_env ?sp (disk demo_world)
    \<and> generate_project_files demo_env ?sp (disk demo_world) = Returned demo_disk
    \<and> isdir (project_source_dir demo_env ?sp) demo_disk"
    unfolding src
    by (simp add: source_python_project_def demo_env_def demo_world_def demo_disk_def isdir_def)
  from generate_strips_rst [of demo_env demo_world demo_disk, THEN conjunct1, rule_format, OF h]
  obtain d2 where
    g: "generate_source_python_docs demo_env demo_world =
          Inr (log_message ''Project files have been generated for Source.Python.''
                (demo_world\<lparr>calls := calls demo_world @ [(Generate ?sp, False)], disk := d2\<rparr>))"
    and r: "\<And>name content. suffix ''.rst'' name
               \<and> map_of demo_disk (joinpath (project_source_dir demo_env ?sp) name)
                   = Some (File content) \<Longrightarrow>
               map_of d2 (joinpath (project_source_dir demo_env ?sp) name)
                 = Some (File (text_write (linesep demo_env)
                     (replace (text_read content) ''source-python.'' [])))"
    and f: "\<And>p. \<not> (p \<noteq> [] \<and> butlast p = project_source_dir demo_env ?sp
                    \<and> suffix ''.rst'' (last p) \<and> isfile p demo_disk) \<Longrightarrow>
               map_of d2 p = map_of demo_disk p"
    by blast
  have ls: "linesep demo_env = NL" by (simp add: demo_env_def)
  have 1: "map_of d2 [''docs'', ''source-python'', ''source'', ''core.rst'']
             = Some (File ''core.command'')"
    using r [of "''core.rst''" "''source-python.core.command''"]
    by (simp add: src joinpath_def demo_disk_def replace_def suffix_Cons ls text_write_newline)
  have 2: "map_of d2 [''docs'', ''source-python'', ''source'', ''conf.py'']
             = Some (File (''project = 1'' @ NL @ ''version = 0'' @ NL @ ''release=0''))"
    using f [of "[''docs'', ''source-python'', ''source'', ''conf.py'']"]
    by (simp add: src demo_disk_def suffix_Cons)
  have l0: "logged demo_world = []" by (simp add: demo_world_def)
  show ?thesis
    unfolding g using 1 2 by (simp add: read_file_def log_message_def l0)
qed

end
